theory Spec2Isabelle
  imports Complex_Main "HOL-Library.Word"
begin

chapter \<open>The numerical core of pyQCD: SU(2) subgroups, heatbath, hopping matrix, solver\<close>

text \<open>
  A shallow embedding of \<open>utils/matrices.hpp\<close>, \<open>algorithms/heatbath.hpp\<close>,
  \<open>fermions/hopping_matrix.hpp\<close> and the solver's test, followed by the theorems about
  them.  Definitions come first, in the order of the sources; theorems follow, one section
  for each source.
\<close>
section \<open>Errors, machine integers and the random source\<close>

text \<open>
  The library reports violations by throwing (\<open>std::range_error\<close>) or by the assertions of
  its containers; in the model every such exit is a value.  \<open>RangeError\<close> is the
  \<open>std::range_error\<close> of \<open>compute_su2_subgroup_pos\<close>; \<open>OutOfBounds\<close> is an index outside a
  matrix or a vector; \<open>NonFinite\<close> is a division by zero: IEEE arithmetic does not trap
  there, the quotient is an infinity or a NaN and every value computed from it is no number
  any more, so the model stops with \<open>NonFinite\<close> where the C++ goes on with such values;
  \<open>DivisionByZero\<close> is an integer division by zero.  Apart from that the reals and complex
  numbers of the model are exact.
\<close>

datatype error = RangeError | OutOfBounds | NonFinite | DivisionByZero

type_synonym u32 = "32 word"

text \<open>
  Modelled from the spec: the macro \<open>pyQCDassert\<close> (utils/macros.hpp is not among the
  sources).  The spec makes a violated check an assertion-level failure that terminates the
  operation with the given error.
\<close>

definition pyQCDassert :: "bool \<Rightarrow> error \<Rightarrow> error + unit" where
  "pyQCDassert expr exception = (if expr then Inr () else Inl exception)"

text \<open>
  Modelled from the spec: the process-wide random source \<open>rng()\<close> (utils/random.hpp is not
  among the sources).  Its state is the sequence of unit-interval draws still to come;
  \<open>generate_real lo hi\<close> maps the next draw \<open>u\<close> to \<open>lo + (hi - lo) * u\<close>, a sample of
  \<open>[lo, hi)\<close> when \<open>0 \<le> u < 1\<close>, and returns the advanced state.
\<close>

type_synonym rng = "nat \<Rightarrow> real"

definition generate_real :: "rng \<Rightarrow> real \<Rightarrow> real \<Rightarrow> real \<times> rng" where
  "generate_real g lo hi = (lo + (hi - lo) * g 0, \<lambda>n. g (Suc n))"

text \<open>
  A computation of the heatbath either does not return (\<open>None\<close>: the acceptance loop of
  \<open>gen_heatbath_su2\<close> can reject for ever), stops with an error, or returns a value.
\<close>

type_synonym 'a outcome = "(error + 'a) option"

definition bind_outcome :: "'a outcome \<Rightarrow> ('a \<Rightarrow> 'b outcome) \<Rightarrow> 'b outcome" where
  "bind_outcome m f =
     (case m of None \<Rightarrow> None | Some (Inl e) \<Rightarrow> Some (Inl e) | Some (Inr x) \<Rightarrow> f x)"

section \<open>SU(2) matrices (utils/matrices.hpp)\<close>

text \<open>
  \<open>SU2Matrix<Real>\<close>: a fixed 2\<times>2 matrix, entries \<open>(0,0)\<close>, \<open>(0,1)\<close>, \<open>(1,0)\<close>, \<open>(1,1)\<close>.  The
  entries are \<open>std::complex<Real>\<close>; with exact numbers for them the matrix is a \<open>mat2\<close>.
\<close>

datatype 'c matrix2 = Mat2 (m00: 'c) (m01: 'c) (m10: 'c) (m11: 'c)

type_synonym mat2 = "complex matrix2"

definition m2_identity :: mat2 where
  "m2_identity = Mat2 1 0 0 1"

definition m2_add :: "mat2 \<Rightarrow> mat2 \<Rightarrow> mat2" where
  "m2_add A B = Mat2 (m00 A + m00 B) (m01 A + m01 B) (m10 A + m10 B) (m11 A + m11 B)"

definition m2_sub :: "mat2 \<Rightarrow> mat2 \<Rightarrow> mat2" where
  "m2_sub A B = Mat2 (m00 A - m00 B) (m01 A - m01 B) (m10 A - m10 B) (m11 A - m11 B)"

definition m2_scale :: "complex \<Rightarrow> mat2 \<Rightarrow> mat2" where
  "m2_scale c A = Mat2 (c * m00 A) (c * m01 A) (c * m10 A) (c * m11 A)"

definition m2_mult :: "mat2 \<Rightarrow> mat2 \<Rightarrow> mat2" where
  "m2_mult A B =
     Mat2 (m00 A * m00 B + m01 A * m10 B) (m00 A * m01 B + m01 A * m11 B)
          (m10 A * m00 B + m11 A * m10 B) (m10 A * m01 B + m11 A * m11 B)"

definition m2_adjoint :: "mat2 \<Rightarrow> mat2" where
  "m2_adjoint A = Mat2 (cnj (m00 A)) (cnj (m10 A)) (cnj (m01 A)) (cnj (m11 A))"

definition m2_trace :: "mat2 \<Rightarrow> complex" where
  "m2_trace A = m00 A + m11 A"

definition m2_determinant :: "mat2 \<Rightarrow> complex" where
  "m2_determinant A = m00 A * m11 A - m01 A * m10 A"

text \<open>\<open>A /= s\<close>: every entry is divided by \<open>s\<close>; with \<open>s = 0\<close> the entries are no numbers.\<close>

definition m2_div :: "mat2 \<Rightarrow> complex \<Rightarrow> error + mat2" where
  "m2_div A s =
     (if s = 0 then Inl NonFinite
      else Inr (Mat2 (m00 A / s) (m01 A / s) (m10 A / s) (m11 A / s)))"


text \<open>The Pauli matrices.\<close>

definition sigma0 :: mat2 where
  "sigma0 = m2_identity"

definition sigma1 :: mat2 where
  "sigma1 = Mat2 0 1 1 0"

definition sigma2 :: mat2 where
  "sigma2 = Mat2 0 (- \<i>) \<i> 0"

definition sigma3 :: mat2 where
  "sigma3 = Mat2 1 0 0 (- 1)"

text \<open>\<open>construct_su2\<close>: \<open>c0 * sigma0 + I * (c1 * sigma1 + c2 * sigma2 + c3 * sigma3)\<close>.\<close>

definition construct_su2 :: "real \<times> real \<times> real \<times> real \<Rightarrow> mat2" where
  "construct_su2 coefficients =
     (case coefficients of (c0, c1, c2, c3) \<Rightarrow>
        m2_add (m2_scale (complex_of_real c0) sigma0)
          (m2_scale \<i>
             (m2_add
                (m2_add (m2_scale (complex_of_real c1) sigma1)
                        (m2_scale (complex_of_real c2) sigma2))
                (m2_scale (complex_of_real c3) sigma3))))"

definition random_su2 :: "rng \<Rightarrow> mat2 \<times> rng" where
  "random_su2 g0 =
     (let (c0, g1) = generate_real g0 0 1;
          three_vec_magnitude = sqrt (1 - c0 * c0);
          (cos_theta, g2) = generate_real g1 (- 1) 1;
          sin_theta = sqrt (1 - cos_theta * cos_theta);
          (phi, g3) = generate_real g2 0 (2 * pi)
      in (construct_su2
            (c0,
             three_vec_magnitude * sin_theta * cos phi,
             three_vec_magnitude * sin_theta * sin phi,
             three_vec_magnitude * cos_theta),
          g3))"

subsection \<open>The position of an SU(2) subgroup\<close>

text \<open>
  The loop of \<open>compute_su2_subgroup_pos\<close>, on \<open>unsigned int\<close>:
  \<^verbatim>\<open>for (i = 0; tmp >= Nc - 1 - i; ++i) { tmp -= (Nc - 1 - i); }\<close>
  \<open>Nc - 1 - i\<close> is computed in 32-bit unsigned arithmetic (\<open>i\<close> is unsigned), so it wraps
  once \<open>i\<close> passes \<open>Nc - 1\<close>.  The loop ends on every input.
\<close>

function subgroup_pos_loop :: "u32 \<Rightarrow> u32 \<Rightarrow> u32 \<Rightarrow> u32 \<times> u32" where
  "subgroup_pos_loop Nc i tmp =
     (if tmp \<ge> Nc - 1 - i
      then subgroup_pos_loop Nc (i + 1) (tmp - (Nc - 1 - i))
      else (i, tmp))"
  by pat_completeness auto
termination
proof (relation "measure (\<lambda>(Nc, i, tmp). 2 * unat tmp + (if Nc - 1 - i = 0 then 1 else 0))")
  show "wf (measure (\<lambda>(Nc, i, tmp). 2 * unat tmp + (if Nc - 1 - i = 0 then 1 else 0)))"
    by simp
next
  fix Nc i tmp :: u32
  assume le: "Nc - 1 - i \<le> tmp"
  define b where "b = Nc - 1 - i"
  have nb: "Nc - 1 - (i + 1) = b - 1" by (simp add: b_def)
  have le': "unat b \<le> unat tmp"
    using le unfolding b_def by (simp add: word_le_nat_alt)
  have sub: "unat (tmp - b) = unat tmp - unat b"
    using le unfolding b_def by (simp add: unat_sub)
  have dec: "2 * unat (tmp - b) + (if b - 1 = 0 then 1 else 0)
             < 2 * unat tmp + (if b = 0 then 1 else (0::nat))"
  proof (cases "b = 0")
    case True
    then have "b - 1 \<noteq> 0" by simp
    with True show ?thesis by simp
  next
    case False
    then have "0 < unat b" by (simp add: unat_gt_0)
    with le' sub have "2 * unat (tmp - b) + 1 < 2 * unat tmp" by arith
    with False show ?thesis by auto
  qed
  show "((Nc, i + 1, tmp - (Nc - 1 - i)), (Nc, i, tmp))
        \<in> measure (\<lambda>(Nc, i, tmp). 2 * unat tmp + (if Nc - 1 - i = 0 then 1 else 0))"
    unfolding in_measure prod.case nb using dec unfolding b_def .
qed

declare subgroup_pos_loop.simps [simp del]

text \<open>
  \<open>compute_su2_subgroup_pos<Nc>(index, i, j)\<close>: the range check
  \<^verbatim>\<open>pyQCDassert((index < Nc), std::range_error("SU(2) subgroup index invalid"))\<close>
  compares the index with \<open>Nc\<close> itself, then the loop runs and \<open>j = i + 1 + tmp\<close>.
  \<open>Nc\<close> is the template's \<open>int\<close>, converted to \<open>unsigned\<close> in both places.
\<close>

definition compute_su2_subgroup_pos :: "nat \<Rightarrow> u32 \<Rightarrow> error + (u32 \<times> u32)" where
  "compute_su2_subgroup_pos Nc index =
     (case pyQCDassert (index < of_nat Nc) RangeError of
        Inl e \<Rightarrow> Inl e
      | Inr _ \<Rightarrow>
          (case subgroup_pos_loop (of_nat Nc) 0 index of
             (i, tmp) \<Rightarrow> Inr (i, i + 1 + tmp)))"

text \<open>
  The enumeration the position is meant to follow: the pairs \<open>(i, j)\<close> with
  \<open>0 \<le> i < j < Nc\<close> in lexicographic order; there are \<open>Nc (Nc - 1) / 2\<close> of them.
\<close>

definition su2_pairs_from :: "nat \<Rightarrow> nat \<Rightarrow> (nat \<times> nat) list" where
  "su2_pairs_from Nc i0 = concat (map (\<lambda>i. map (\<lambda>j. (i, j)) [Suc i..<Nc]) [i0..<Nc])"

definition su2_pairs :: "nat \<Rightarrow> (nat \<times> nat) list" where
  "su2_pairs Nc = su2_pairs_from Nc 0"

definition num_subgroups :: "nat \<Rightarrow> nat" where
  "num_subgroups Nc = (Nc * (Nc - 1)) div 2"

subsection \<open>Colour matrices and the SU(2) blocks inside them\<close>

text \<open>
  \<open>ColourMatrix<Real, Nc>\<close>: a fixed \<open>Nc \<times> Nc\<close> complex matrix, modelled as its entries by
  row and column; the dimension \<open>Nc\<close> is the template parameter and is passed along.  Only
  the entries with both indices below \<open>Nc\<close> exist in the C++; the operations of the model
  keep 0 elsewhere.
\<close>

type_synonym cmat = "nat \<Rightarrow> nat \<Rightarrow> complex"

definition cm_identity :: "nat \<Rightarrow> cmat" where
  "cm_identity Nc = (\<lambda>r c. if r = c \<and> r < Nc then 1 else 0)"

definition cm_zero :: cmat where
  "cm_zero = (\<lambda>r c. 0)"

definition cm_set :: "(nat \<Rightarrow> nat \<Rightarrow> 'c) \<Rightarrow> nat \<Rightarrow> nat \<Rightarrow> 'c \<Rightarrow> (nat \<Rightarrow> nat \<Rightarrow> 'c)" where
  "cm_set M i j v = (\<lambda>r c. if r = i \<and> c = j then v else M r c)"

definition cm_mult :: "nat \<Rightarrow> cmat \<Rightarrow> cmat \<Rightarrow> cmat" where
  "cm_mult Nc A B = (\<lambda>r c. if r < Nc \<and> c < Nc then (\<Sum>k<Nc. A r k * B k c) else 0)"

definition cm_adjoint :: "cmat \<Rightarrow> cmat" where
  "cm_adjoint A = (\<lambda>r c. cnj (A c r))"

definition cm_scale :: "complex \<Rightarrow> cmat \<Rightarrow> cmat" where
  "cm_scale z A = (\<lambda>r c. z * A r c)"

text \<open>The 2\<times>2 block of a colour matrix at rows and columns \<open>i\<close> and \<open>j\<close>.\<close>

definition cm_block :: "(nat \<Rightarrow> nat \<Rightarrow> 'c) \<Rightarrow> nat \<Rightarrow> nat \<Rightarrow> 'c matrix2" where
  "cm_block M i j = Mat2 (M i i) (M i j) (M j i) (M j j)"

text \<open>
  \<open>extract_su2\<close>: the block at the subgroup's position, then
  \<^verbatim>\<open>ret - ret.adjoint() + Mat::Identity() * std::conj(ret.trace())\<close>.
  An entry outside the matrix is an error of the matrix's own index check.
\<close>

definition extract_su2 :: "nat \<Rightarrow> cmat \<Rightarrow> u32 \<Rightarrow> error + mat2" where
  "extract_su2 Nc colour_matrix subgroup =
     (case compute_su2_subgroup_pos Nc subgroup of
        Inl e \<Rightarrow> Inl e
      | Inr (i, j) \<Rightarrow>
          if unat i < Nc \<and> unat j < Nc then
            (let ret = Mat2 (colour_matrix (unat i) (unat i)) (colour_matrix (unat i) (unat j))
                            (colour_matrix (unat j) (unat i)) (colour_matrix (unat j) (unat j))
             in Inr (m2_add (m2_sub ret (m2_adjoint ret))
                            (m2_scale (cnj (m2_trace ret)) m2_identity)))
          else Inl OutOfBounds)"

text \<open>
  \<open>insert_su2\<close>: the identity with the entries \<open>(i,i)\<close>, \<open>(i,j)\<close>, \<open>(j,i)\<close>, \<open>(j,j)\<close>
  overwritten, in this order.
\<close>

definition insert_su2 :: "nat \<Rightarrow> mat2 \<Rightarrow> u32 \<Rightarrow> error + cmat" where
  "insert_su2 Nc su2_matrix subgroup =
     (case compute_su2_subgroup_pos Nc subgroup of
        Inl e \<Rightarrow> Inl e
      | Inr (i, j) \<Rightarrow>
          if unat i < Nc \<and> unat j < Nc then
            Inr (cm_set (cm_set (cm_set (cm_set (cm_identity Nc)
                   (unat i) (unat i) (m00 su2_matrix))
                   (unat i) (unat j) (m01 su2_matrix))
                   (unat j) (unat i) (m10 su2_matrix))
                   (unat j) (unat j) (m11 su2_matrix))
          else Inl OutOfBounds)"


text \<open>
  The formula of \<open>extract_su2\<close> in the spec's words, \<open>R - R\<^sup>\<dagger> + I * conj (trace R)\<close>, and
  the shape of its values: second row \<open>(- conj b, conj a)\<close> for a first row \<open>(a, b)\<close>.
\<close>

definition su2_shaped :: "mat2 \<Rightarrow> bool" where
  "su2_shaped A \<longleftrightarrow> m10 A = - cnj (m01 A) \<and> m11 A = cnj (m00 A)"


section \<open>Lattice fields\<close>

text \<open>
  Modelled from the spec: the lattice container (core/lattice.hpp and core/layout.hpp are
  not among the sources).  A lattice is bound to a layout, here its shape, and holds
  \<open>site_size\<close> elements for each site in one dense array; the element \<open>(site, offset)\<close>
  is the flat element \<open>site * site_size + offset\<close>, and \<open>size()\<close> is
  \<open>volume * site_size\<close>.  An index outside the array is the error \<open>OutOfBounds\<close>.
\<close>

record 'a lattice =
  lat_shape :: "nat list"
  site_size :: nat
  lat_data :: "'a list"

definition volume :: "nat list \<Rightarrow> nat" where
  "volume shape = prod_list shape"

definition lat_size :: "'a lattice \<Rightarrow> nat" where
  "lat_size F = volume (lat_shape F) * site_size F"

definition lattice_wf :: "'a lattice \<Rightarrow> bool" where
  "lattice_wf F \<longleftrightarrow> length (lat_data F) = lat_size F"

definition lat_get :: "'a lattice \<Rightarrow> nat \<Rightarrow> error + 'a" where
  "lat_get F k = (if k < length (lat_data F) then Inr (lat_data F ! k) else Inl OutOfBounds)"

definition lat_set :: "'a lattice \<Rightarrow> nat \<Rightarrow> 'a \<Rightarrow> error + 'a lattice" where
  "lat_set F k v =
     (if k < length (lat_data F) then Inr (F\<lparr>lat_data := (lat_data F)[k := v]\<rparr>)
      else Inl OutOfBounds)"

section \<open>The pseudo-heatbath update (algorithms/heatbath.hpp)\<close>

text \<open>
  The gauge action is the abstract class \<open>gauge::Action\<close> (gauge/gauge_action.hpp is not
  among the sources): its two operations, \<open>beta()\<close> and \<open>compute_staples(field, link)\<close>,
  are the fields of the record, so every statement below is about any action.
\<close>

record gauge_action =
  beta :: real
  compute_staples :: "cmat lattice \<Rightarrow> nat \<Rightarrow> cmat"

text \<open>\<open>std::numeric_limits<Real>::epsilon()\<close> for \<open>Real = double\<close>, the type of the tests.\<close>

definition real_epsilon :: real where
  "real_epsilon = 1 / 2 ^ 52"

text \<open>
  One round of the acceptance loop of \<open>gen_heatbath_su2\<close>: three draws \<open>r = 1 - u\<close>, the
  new \<open>lambda_squared\<close>, and the draw for \<open>uniform_squared\<close>.
\<close>

definition kp_round :: "real \<Rightarrow> rng \<Rightarrow> real \<times> real \<times> rng" where
  "kp_round weight g0 =
     (let (u0, g1) = generate_real g0 0 1; r0 = 1 - u0;
          (u1, g2) = generate_real g1 0 1; r1 = 1 - u1;
          (u2, g3) = generate_real g2 0 1; r2 = 1 - u2;
          lambda_squared = - 1 / (2 * weight) * (ln r0 + (cos (2 * pi * r1)) ^ 2 * ln r2);
          (u3, g4) = generate_real g3 0 1
      in (lambda_squared, u3 ^ 2, g4))"

text \<open>
  \<^verbatim>\<open>while (uniform_squared > 1 - lambda_squared) { ... }\<close>: the loop has no bound; a
  sequence of draws that is rejected for ever gives \<open>None\<close>.
\<close>

partial_function (option) kp_loop :: "real \<Rightarrow> real \<Rightarrow> real \<Rightarrow> rng \<Rightarrow> (real \<times> rng) option" where
  "kp_loop weight lambda_squared uniform_squared g =
     (if uniform_squared > 1 - lambda_squared
      then kp_loop weight (fst (kp_round weight g)) (fst (snd (kp_round weight g)))
             (snd (snd (kp_round weight g)))
      else Some (lambda_squared, g))"

text \<open>
  \<open>gen_heatbath_su2(weight)\<close>.  The loop divides by \<open>2 * weight\<close>: with \<open>weight = 0\<close> the
  quotient is no number.
\<close>

definition gen_heatbath_su2 :: "real \<Rightarrow> rng \<Rightarrow> (mat2 \<times> rng) outcome" where
  "gen_heatbath_su2 weight g0 =
     (if weight = 0 then Some (Inl NonFinite)
      else
        (let (u, g1) = generate_real g0 0 1 in
         case kp_loop weight 2 (u ^ 2) g1 of
           None \<Rightarrow> None
         | Some (lambda_squared, g2) \<Rightarrow>
             (let c0 = 1 - 2 * lambda_squared;
                  three_vec_magnitude = sqrt (1 - c0 * c0);
                  (cos_theta, g3) = generate_real g2 (- 1) 1;
                  sin_theta = sqrt (1 - cos_theta * cos_theta);
                  (phi, g4) = generate_real g3 0 (2 * pi)
              in Some (Inr (construct_su2
                              (c0,
                               three_vec_magnitude * sin_theta * cos phi,
                               three_vec_magnitude * sin_theta * sin phi,
                               three_vec_magnitude * cos_theta),
                            g4)))))"

text \<open>
  \<open>su2_heatbath_update(link, staple, weight, subgroup)\<close>, statement by statement:
  \<^verbatim>\<open>
  ColourMatrix<Real, Nc> W = link * staple;
  auto A = extract_su2(W, subgroup);
  auto sqrt_detA = std::sqrt(A.determinant());
  A /= sqrt_detA;
  Real a = sqrt_detA.real();
  bool det_is_zero = a < 6.0 * std::numeric_limits<Real>::epsilon();
  auto X = det_is_zero ? random_su2<Real>() : gen_heatbath_su2(a * weight);
  auto N = insert_su2<Nc>((X * A.adjoint()).eval(), subgroup);
  link = N * link;
  \<close>
  The division \<open>A /= sqrt_detA\<close> stands before the test of \<open>a\<close>, and the matrix inserted
  is \<open>X * A.adjoint()\<close> in both branches.  The function returns the new link and the state
  of the random source.
\<close>

definition su2_heatbath_update ::
  "nat \<Rightarrow> cmat \<Rightarrow> cmat \<Rightarrow> real \<Rightarrow> u32 \<Rightarrow> rng \<Rightarrow> (cmat \<times> rng) outcome" where
  "su2_heatbath_update Nc link staple weight subgroup g =
     (let W = cm_mult Nc link staple in
      case extract_su2 Nc W subgroup of
        Inl e \<Rightarrow> Some (Inl e)
      | Inr A0 \<Rightarrow>
          (let sqrt_detA = csqrt (m2_determinant A0) in
           case m2_div A0 sqrt_detA of
             Inl e \<Rightarrow> Some (Inl e)
           | Inr A \<Rightarrow>
               (let a = Re sqrt_detA;
                    det_is_zero = a < 6 * real_epsilon
                in bind_outcome
                     (if det_is_zero then Some (Inr (random_su2 g))
                      else gen_heatbath_su2 (a * weight) g)
                     (\<lambda>(X, g').
                        case insert_su2 Nc (m2_mult X (m2_adjoint A)) subgroup of
                          Inl e \<Rightarrow> Some (Inl e)
                        | Inr N \<Rightarrow> Some (Inr (cm_mult Nc N link, g'))))))"

text \<open>
  The loop of \<open>heatbath_link_update\<close> over the subgroups.  \<open>link\<close> is a reference to the
  element \<open>k\<close> of the field, so every round reads that element and writes it back.
\<close>

fun subgroup_sweep ::
  "nat \<Rightarrow> cmat \<Rightarrow> real \<Rightarrow> nat \<Rightarrow> nat list \<Rightarrow> cmat lattice \<times> rng
   \<Rightarrow> (cmat lattice \<times> rng) outcome" where
  "subgroup_sweep Nc staple weight k [] st = Some (Inr st)"
| "subgroup_sweep Nc staple weight k (subgroup # rest) (F, g) =
     bind_outcome (su2_heatbath_update Nc (lat_data F ! k) staple weight (of_nat subgroup) g)
       (\<lambda>(link, g'). subgroup_sweep Nc staple weight k rest
                         (F\<lparr>lat_data := (lat_data F)[k := link]\<rparr>, g'))"

text \<open>
  \<open>heatbath_link_update(gauge_field, action, link_index)\<close>: the staple is computed first,
  the link is the element
  \<open>(link_index / site_size, link_index % site_size)\<close> of the field, and
  \<open>beta_prime = beta / Nc\<close>.
\<close>

definition heatbath_link_update ::
  "nat \<Rightarrow> cmat lattice \<Rightarrow> gauge_action \<Rightarrow> nat \<Rightarrow> rng \<Rightarrow> (cmat lattice \<times> rng) outcome" where
  "heatbath_link_update Nc gauge_field action link_index g =
     (let staple = compute_staples action gauge_field link_index in
      if site_size gauge_field = 0 then Some (Inl DivisionByZero)
      else
        (let k = (link_index div site_size gauge_field) * site_size gauge_field
                 + link_index mod site_size gauge_field
         in case lat_get gauge_field k of
              Inl e \<Rightarrow> Some (Inl e)
            | Inr _ \<Rightarrow>
                (let beta_prime = beta action / real Nc
                 in subgroup_sweep Nc staple beta_prime k [0..<num_subgroups Nc]
                      (gauge_field, g))))"

text \<open>
  \<open>heatbath_update(gauge_field, action, num_iter)\<close>: \<open>num_iter\<close> sweeps over the links
  \<open>0, ..., size() - 1\<close> in this order.
\<close>

fun link_sweep ::
  "nat \<Rightarrow> gauge_action \<Rightarrow> nat list \<Rightarrow> cmat lattice \<times> rng \<Rightarrow> (cmat lattice \<times> rng) outcome" where
  "link_sweep Nc action [] st = Some (Inr st)"
| "link_sweep Nc action (link # rest) (F, g) =
     bind_outcome (heatbath_link_update Nc F action link g) (link_sweep Nc action rest)"

fun heatbath_iterate ::
  "nat \<Rightarrow> gauge_action \<Rightarrow> nat \<Rightarrow> nat \<Rightarrow> cmat lattice \<times> rng
   \<Rightarrow> (cmat lattice \<times> rng) outcome" where
  "heatbath_iterate Nc action num_links 0 st = Some (Inr st)"
| "heatbath_iterate Nc action num_links (Suc n) st =
     bind_outcome (link_sweep Nc action [0..<num_links] st)
       (heatbath_iterate Nc action num_links n)"

definition heatbath_update ::
  "nat \<Rightarrow> cmat lattice \<Rightarrow> gauge_action \<Rightarrow> nat \<Rightarrow> rng \<Rightarrow> (cmat lattice \<times> rng) outcome" where
  "heatbath_update Nc gauge_field action num_iter g =
     heatbath_iterate Nc action (lat_size gauge_field) num_iter (gauge_field, g)"

subsection \<open>Concrete inputs\<close>

text \<open>
  A staple whose extracted SU(2) part is \<open>\<epsilon>\<close> times an SU(2) matrix, \<open>\<epsilon>\<close> the machine
  epsilon: the real part of the square root of its determinant is \<open>\<epsilon> < 6 \<epsilon>\<close>.
\<close>

definition tiny_staple :: cmat where
  "tiny_staple = cm_set (cm_set cm_zero 0 1 (complex_of_real (real_epsilon / 2)))
                        1 0 (complex_of_real (- real_epsilon / 2))"

text \<open>
  A field of four identity links on one site with an action whose staples vanish (staples
  are sums of products of links and can cancel, as \<open>I + \<omega> I + \<omega>\<^sup>2 I\<close> does for a cube root
  of unity \<open>\<omega>\<close>), and a field of two identity links with an action whose staples are the
  identity.
\<close>

definition unit_gauge_field :: "cmat lattice" where
  "unit_gauge_field = \<lparr>lat_shape = [1, 1, 1, 1], site_size = 4,
                        lat_data = replicate 4 (cm_identity 3)\<rparr>"

definition vanishing_staples :: gauge_action where
  "vanishing_staples = \<lparr>beta = 1, compute_staples = (\<lambda>F l. cm_zero)\<rparr>"



section \<open>The lattice layout\<close>

text \<open>
  Modelled from the spec: the lexicographic layout (core/layout.hpp is not among the
  sources).  A layout is its shape, the list of extents.  Site coordinates are integers;
  the site index of a site is its rank in lexicographic order, the first axis the most
  significant; \<open>compute_site_coords\<close> is the mixed-radix decomposition in axis order and
  \<open>get_site_index\<close> its inverse on coordinates in range; the array index of a site is its
  site index (the storage order of this layout is the canonical order);
  \<open>sanitize_site_coords\<close> reduces every component modulo its extent (the mathematical
  modulo, so that negative components wrap).
\<close>

fun compute_site_coords :: "nat list \<Rightarrow> nat \<Rightarrow> int list" where
  "compute_site_coords [] site_index = []"
| "compute_site_coords (extent # shape) site_index =
     int ((site_index div volume shape) mod extent)
     # compute_site_coords shape (site_index mod volume shape)"

fun get_site_index :: "nat list \<Rightarrow> int list \<Rightarrow> nat" where
  "get_site_index (extent # shape) (c # coords) = nat c * volume shape + get_site_index shape coords"
| "get_site_index shape coords = 0"

definition get_array_index :: "nat list \<Rightarrow> nat \<Rightarrow> nat" where
  "get_array_index shape site_index = site_index"

definition sanitize_site_coords :: "nat list \<Rightarrow> int list \<Rightarrow> int list" where
  "sanitize_site_coords shape coords = map2 (\<lambda>c extent. c mod int extent) coords shape"

text \<open>
  Modelled from the spec: a lattice built from a layout and a site size alone.  The spec
  names only constructors with a fill element; what this one leaves in the elements is not
  fixed by the sources present (Eigen does not initialise a fixed-size matrix), so the
  initial elements are a parameter.
\<close>

definition lattice_new :: "nat list \<Rightarrow> nat \<Rightarrow> (nat \<Rightarrow> 'a) \<Rightarrow> 'a lattice" where
  "lattice_new shape ss initial =
     \<lparr>lat_shape = shape, site_size = ss, lat_data = map initial [0..<volume shape * ss]\<rparr>"

section \<open>Checked containers and loops\<close>

definition bind_err :: "error + 'a \<Rightarrow> ('a \<Rightarrow> error + 'b) \<Rightarrow> error + 'b" where
  "bind_err m f = (case m of Inl e \<Rightarrow> Inl e | Inr x \<Rightarrow> f x)"

text \<open>\<open>std::vector\<close>: an index outside the vector is the error \<open>OutOfBounds\<close>.\<close>

definition vec_get :: "'a list \<Rightarrow> nat \<Rightarrow> error + 'a" where
  "vec_get xs i = (if i < length xs then Inr (xs ! i) else Inl OutOfBounds)"

definition vec_set :: "'a list \<Rightarrow> nat \<Rightarrow> 'a \<Rightarrow> error + 'a list" where
  "vec_set xs i v = (if i < length xs then Inr (xs[i := v]) else Inl OutOfBounds)"

text \<open>\<open>for (unsigned i = 0; i < n; ++i) body\<close> is \<open>for_loop [0..<n] body\<close>.\<close>

fun for_loop :: "nat list \<Rightarrow> (nat \<Rightarrow> 's \<Rightarrow> error + 's) \<Rightarrow> 's \<Rightarrow> error + 's" where
  "for_loop [] body s = Inr s"
| "for_loop (i # rest) body s = bind_err (body i s) (for_loop rest body)"

section \<open>The group utilities and the link update over any arithmetic\<close>

text \<open>
  The functions above compute with exact real and complex numbers.  The C++ computes in
  \<open>Real = double\<close>: its operations round, overflow and underflow, and they have values that
  the exact numbers lack (infinities, NaN), where the exact division by zero has none.
  Which entries of a matrix \<open>extract_su2\<close> reads and \<open>insert_su2\<close> writes, and which link of a
  field \<open>heatbath_link_update\<close> writes, does not depend on any of that.  For the statements
  about this the same functions are transcribed once more, statement by statement, over an
  arbitrary arithmetic: \<open>'r\<close> stands for \<open>Real\<close>, \<open>'c\<close> for \<open>std::complex<Real>\<close>, \<open>'g\<close> for the
  state of the random source, and every operation the code applies to them is a field of the
  record \<open>numerics\<close>.

  The division may end in an error, so that the exact arithmetic, where it stops with
  \<open>NonFinite\<close> at a zero divisor, is one instance (\<open>exact_numerics\<close> below); an arithmetic
  in which every quotient is a value, as IEEE's, never takes that exit.  The two samplers
  \<open>random_su2\<close> and \<open>gen_heatbath_su2\<close> are fields as well: they are functions of the random
  source alone and of a weight, they return a 2\<times>2 matrix and the advanced source, and
  \<open>gen_heatbath_su2\<close> need not return.
\<close>

record ('r, 'c, 'g) numerics =
  c_zero :: 'c
  c_one :: 'c
  c_add :: "'c \<Rightarrow> 'c \<Rightarrow> 'c"
  c_sub :: "'c \<Rightarrow> 'c \<Rightarrow> 'c"
  c_mult :: "'c \<Rightarrow> 'c \<Rightarrow> 'c"
  c_div :: "'c \<Rightarrow> 'c \<Rightarrow> error + 'c"
  c_conj :: "'c \<Rightarrow> 'c"
  c_sqrt :: "'c \<Rightarrow> 'c"
  c_real :: "'c \<Rightarrow> 'r"
  r_mult :: "'r \<Rightarrow> 'r \<Rightarrow> 'r"
  r_div_int :: "'r \<Rightarrow> nat \<Rightarrow> 'r"
  r_less :: "'r \<Rightarrow> 'r \<Rightarrow> bool"
  six_epsilon :: 'r
  draw_su2 :: "'g \<Rightarrow> 'c matrix2 \<times> 'g"
  draw_heatbath_su2 :: "'r \<Rightarrow> 'g \<Rightarrow> ('c matrix2 \<times> 'g) outcome"

text \<open>The exact arithmetic of the sections above, with the samplers defined there.\<close>

definition exact_numerics :: "(real, complex, rng) numerics" where
  "exact_numerics =
     \<lparr>c_zero = 0, c_one = 1,
      c_add = (\<lambda>x y. x + y), c_sub = (\<lambda>x y. x - y), c_mult = (\<lambda>x y. x * y),
      c_div = (\<lambda>x s. if s = 0 then Inl NonFinite else Inr (x / s)),
      c_conj = cnj, c_sqrt = csqrt, c_real = Re,
      r_mult = (\<lambda>x y. x * y), r_div_int = (\<lambda>x n. x / real n), r_less = (\<lambda>x y. x < y),
      six_epsilon = 6 * real_epsilon,
      draw_su2 = random_su2, draw_heatbath_su2 = gen_heatbath_su2\<rparr>"

subsection \<open>2\<times>2 matrices\<close>

definition m2_identity_over :: "('r, 'c, 'g) numerics \<Rightarrow> 'c matrix2" where
  "m2_identity_over nm = Mat2 (c_one nm) (c_zero nm) (c_zero nm) (c_one nm)"

definition m2_add_over :: "('r, 'c, 'g) numerics \<Rightarrow> 'c matrix2 \<Rightarrow> 'c matrix2 \<Rightarrow> 'c matrix2" where
  "m2_add_over nm A B =
     Mat2 (c_add nm (m00 A) (m00 B)) (c_add nm (m01 A) (m01 B))
          (c_add nm (m10 A) (m10 B)) (c_add nm (m11 A) (m11 B))"

definition m2_sub_over :: "('r, 'c, 'g) numerics \<Rightarrow> 'c matrix2 \<Rightarrow> 'c matrix2 \<Rightarrow> 'c matrix2" where
  "m2_sub_over nm A B =
     Mat2 (c_sub nm (m00 A) (m00 B)) (c_sub nm (m01 A) (m01 B))
          (c_sub nm (m10 A) (m10 B)) (c_sub nm (m11 A) (m11 B))"

text \<open>\<open>A * z\<close> for a matrix \<open>A\<close> and a number \<open>z\<close>: every entry is multiplied by \<open>z\<close>.\<close>

definition m2_times_over :: "('r, 'c, 'g) numerics \<Rightarrow> 'c matrix2 \<Rightarrow> 'c \<Rightarrow> 'c matrix2" where
  "m2_times_over nm A z =
     Mat2 (c_mult nm (m00 A) z) (c_mult nm (m01 A) z)
          (c_mult nm (m10 A) z) (c_mult nm (m11 A) z)"

definition m2_mult_over :: "('r, 'c, 'g) numerics \<Rightarrow> 'c matrix2 \<Rightarrow> 'c matrix2 \<Rightarrow> 'c matrix2" where
  "m2_mult_over nm A B =
     Mat2 (c_add nm (c_mult nm (m00 A) (m00 B)) (c_mult nm (m01 A) (m10 B)))
          (c_add nm (c_mult nm (m00 A) (m01 B)) (c_mult nm (m01 A) (m11 B)))
          (c_add nm (c_mult nm (m10 A) (m00 B)) (c_mult nm (m11 A) (m10 B)))
          (c_add nm (c_mult nm (m10 A) (m01 B)) (c_mult nm (m11 A) (m11 B)))"

definition m2_adjoint_over :: "('r, 'c, 'g) numerics \<Rightarrow> 'c matrix2 \<Rightarrow> 'c matrix2" where
  "m2_adjoint_over nm A =
     Mat2 (c_conj nm (m00 A)) (c_conj nm (m10 A)) (c_conj nm (m01 A)) (c_conj nm (m11 A))"

definition m2_trace_over :: "('r, 'c, 'g) numerics \<Rightarrow> 'c matrix2 \<Rightarrow> 'c" where
  "m2_trace_over nm A = c_add nm (m00 A) (m11 A)"

definition m2_determinant_over :: "('r, 'c, 'g) numerics \<Rightarrow> 'c matrix2 \<Rightarrow> 'c" where
  "m2_determinant_over nm A =
     c_sub nm (c_mult nm (m00 A) (m11 A)) (c_mult nm (m01 A) (m10 A))"

text \<open>\<open>A /= s\<close>: every entry is divided by \<open>s\<close>.\<close>

definition m2_div_over :: "('r, 'c, 'g) numerics \<Rightarrow> 'c matrix2 \<Rightarrow> 'c \<Rightarrow> error + 'c matrix2" where
  "m2_div_over nm A s =
     bind_err (c_div nm (m00 A) s) (\<lambda>a.
     bind_err (c_div nm (m01 A) s) (\<lambda>b.
     bind_err (c_div nm (m10 A) s) (\<lambda>c.
     bind_err (c_div nm (m11 A) s) (\<lambda>d.
     Inr (Mat2 a b c d)))))"

subsection \<open>Colour matrices, extraction and insertion\<close>

type_synonym 'c colour_matrix = "nat \<Rightarrow> nat \<Rightarrow> 'c"

definition cm_identity_over :: "('r, 'c, 'g) numerics \<Rightarrow> nat \<Rightarrow> 'c colour_matrix" where
  "cm_identity_over nm Nc = (\<lambda>r c. if r = c \<and> r < Nc then c_one nm else c_zero nm)"

text \<open>The product of two colour matrices: the entry \<open>(r, c)\<close> sums \<open>A r k * B k c\<close> over \<open>k\<close> in order.\<close>

definition cm_mult_over ::
  "('r, 'c, 'g) numerics \<Rightarrow> nat \<Rightarrow> 'c colour_matrix \<Rightarrow> 'c colour_matrix \<Rightarrow> 'c colour_matrix" where
  "cm_mult_over nm Nc A B =
     (\<lambda>r c. if r < Nc \<and> c < Nc
            then foldl (\<lambda>acc k. c_add nm acc (c_mult nm (A r k) (B k c))) (c_zero nm) [0..<Nc]
            else c_zero nm)"

text \<open>
  \<open>extract_su2\<close>: the entries \<open>(i,i)\<close>, \<open>(i,j)\<close>, \<open>(j,i)\<close>, \<open>(j,j)\<close> at the subgroup's position, then
  \<^verbatim>\<open>ret - ret.adjoint() + Mat::Identity() * std::conj(ret.trace())\<close>.
\<close>

definition extract_su2_over ::
  "('r, 'c, 'g) numerics \<Rightarrow> nat \<Rightarrow> 'c colour_matrix \<Rightarrow> u32 \<Rightarrow> error + 'c matrix2" where
  "extract_su2_over nm Nc colour_matrix subgroup =
     (case compute_su2_subgroup_pos Nc subgroup of
        Inl e \<Rightarrow> Inl e
      | Inr (i, j) \<Rightarrow>
          if unat i < Nc \<and> unat j < Nc then
            (let ret = Mat2 (colour_matrix (unat i) (unat i)) (colour_matrix (unat i) (unat j))
                            (colour_matrix (unat j) (unat i)) (colour_matrix (unat j) (unat j))
             in Inr (m2_add_over nm (m2_sub_over nm ret (m2_adjoint_over nm ret))
                       (m2_times_over nm (m2_identity_over nm) (c_conj nm (m2_trace_over nm ret)))))
          else Inl OutOfBounds)"

text \<open>
  \<open>insert_su2\<close>: the identity with the entries \<open>(i,i)\<close>, \<open>(i,j)\<close>, \<open>(j,i)\<close>, \<open>(j,j)\<close>
  overwritten, in this order.
\<close>

definition insert_su2_over ::
  "('r, 'c, 'g) numerics \<Rightarrow> nat \<Rightarrow> 'c matrix2 \<Rightarrow> u32 \<Rightarrow> error + 'c colour_matrix" where
  "insert_su2_over nm Nc su2_matrix subgroup =
     (case compute_su2_subgroup_pos Nc subgroup of
        Inl e \<Rightarrow> Inl e
      | Inr (i, j) \<Rightarrow>
          if unat i < Nc \<and> unat j < Nc then
            Inr (cm_set (cm_set (cm_set (cm_set (cm_identity_over nm Nc)
                   (unat i) (unat i) (m00 su2_matrix))
                   (unat i) (unat j) (m01 su2_matrix))
                   (unat j) (unat i) (m10 su2_matrix))
                   (unat j) (unat j) (m11 su2_matrix))
          else Inl OutOfBounds)"

text \<open>
  The normalisation of heatbath.hpp, lines 88 and 89:
  \<^verbatim>\<open>auto sqrt_detA = std::sqrt(A.determinant()); A /= sqrt_detA;\<close>
\<close>

definition su2_normalise_over :: "('r, 'c, 'g) numerics \<Rightarrow> 'c matrix2 \<Rightarrow> error + 'c matrix2" where
  "su2_normalise_over nm A = m2_div_over nm A (c_sqrt nm (m2_determinant_over nm A))"

text \<open>
  In the spec's words: the matrix \<open>R - R\<^sup>\<dagger> + I * conj (trace R)\<close> of a 2\<times>2 block \<open>R\<close>, and the
  projection of a colour matrix \<open>U\<close> onto the SU(2) subgroup at \<open>(i, j)\<close>: that matrix for
  the block of \<open>U\<close> at \<open>(i, j)\<close>, divided by the square root of its determinant.
\<close>

definition su2_tangent_over :: "('r, 'c, 'g) numerics \<Rightarrow> 'c matrix2 \<Rightarrow> 'c matrix2" where
  "su2_tangent_over nm R =
     m2_add_over nm (m2_sub_over nm R (m2_adjoint_over nm R))
       (m2_times_over nm (m2_identity_over nm) (c_conj nm (m2_trace_over nm R)))"

definition su2_projection_over ::
  "('r, 'c, 'g) numerics \<Rightarrow> 'c colour_matrix \<Rightarrow> nat \<Rightarrow> nat \<Rightarrow> error + 'c matrix2" where
  "su2_projection_over nm U i j = su2_normalise_over nm (su2_tangent_over nm (cm_block U i j))"

subsection \<open>The link update\<close>

text \<open>
  \<open>su2_heatbath_update\<close>, the statements of heatbath.hpp, lines 86 to 94, in their order.
  When \<open>extract_su2\<close> or \<open>insert_su2\<close> throws, the assignment \<open>link = N * link\<close> has not been
  reached.
\<close>

definition su2_heatbath_update_over ::
  "('r, 'c, 'g) numerics \<Rightarrow> nat \<Rightarrow> 'c colour_matrix \<Rightarrow> 'c colour_matrix \<Rightarrow> 'r \<Rightarrow> u32 \<Rightarrow> 'g
   \<Rightarrow> ('c colour_matrix \<times> 'g) outcome" where
  "su2_heatbath_update_over nm Nc link staple weight subgroup g =
     (let W = cm_mult_over nm Nc link staple in
      case extract_su2_over nm Nc W subgroup of
        Inl e \<Rightarrow> Some (Inl e)
      | Inr A0 \<Rightarrow>
          (let sqrt_detA = c_sqrt nm (m2_determinant_over nm A0) in
           case m2_div_over nm A0 sqrt_detA of
             Inl e \<Rightarrow> Some (Inl e)
           | Inr A \<Rightarrow>
               (let a = c_real nm sqrt_detA;
                    det_is_zero = r_less nm a (six_epsilon nm)
                in bind_outcome
                     (if det_is_zero then Some (Inr (draw_su2 nm g))
                      else draw_heatbath_su2 nm (r_mult nm a weight) g)
                     (\<lambda>(X, g').
                        case insert_su2_over nm Nc
                               (m2_mult_over nm X (m2_adjoint_over nm A)) subgroup of
                          Inl e \<Rightarrow> Some (Inl e)
                        | Inr N \<Rightarrow> Some (Inr (cm_mult_over nm Nc N link, g'))))))"

text \<open>
  How a call on a field ends, when it ends: it throws, and the field is what the call has
  made of it up to there, or it returns, with the field and the random source.
\<close>

datatype ('f, 'g) ending = Threw error 'f | Returned 'f 'g

fun field_at_end :: "('f, 'g) ending \<Rightarrow> 'f" where
  "field_at_end (Threw e F) = F"
| "field_at_end (Returned F g) = F"

text \<open>
  The gauge action, as above: \<open>beta()\<close> and \<open>compute_staples(field, link)\<close>, which takes the
  field by reference to a constant.
\<close>

record ('r, 'c) gauge_action_over =
  beta_over :: 'r
  compute_staples_over :: "'c colour_matrix lattice \<Rightarrow> nat \<Rightarrow> 'c colour_matrix"

text \<open>
  The loop of \<open>heatbath_link_update\<close> over the subgroups: \<open>link\<close> is a reference to the
  element \<open>k\<close> of the field, and every round that returns has assigned to it.
\<close>

fun subgroup_sweep_over ::
  "('r, 'c, 'g) numerics \<Rightarrow> nat \<Rightarrow> 'c colour_matrix \<Rightarrow> 'r \<Rightarrow> nat \<Rightarrow> nat list
   \<Rightarrow> 'c colour_matrix lattice \<times> 'g \<Rightarrow> ('c colour_matrix lattice, 'g) ending option" where
  "subgroup_sweep_over nm Nc staple weight k [] (F, g) = Some (Returned F g)"
| "subgroup_sweep_over nm Nc staple weight k (subgroup # rest) (F, g) =
     (case su2_heatbath_update_over nm Nc (lat_data F ! k) staple weight (of_nat subgroup) g of
        None \<Rightarrow> None
      | Some (Inl e) \<Rightarrow> Some (Threw e F)
      | Some (Inr (link, g')) \<Rightarrow>
          subgroup_sweep_over nm Nc staple weight k rest
            (F\<lparr>lat_data := (lat_data F)[k := link]\<rparr>, g'))"

text \<open>
  \<open>heatbath_link_update(gauge_field, action, link_index)\<close>, the statements of heatbath.hpp,
  lines 103 to 113.
\<close>

definition heatbath_link_update_over ::
  "('r, 'c, 'g) numerics \<Rightarrow> nat \<Rightarrow> 'c colour_matrix lattice \<Rightarrow> ('r, 'c) gauge_action_over
   \<Rightarrow> nat \<Rightarrow> 'g \<Rightarrow> ('c colour_matrix lattice, 'g) ending option" where
  "heatbath_link_update_over nm Nc gauge_field action link_index g =
     (let staple = compute_staples_over action gauge_field link_index in
      if site_size gauge_field = 0 then Some (Threw DivisionByZero gauge_field)
      else
        (let k = (link_index div site_size gauge_field) * site_size gauge_field
                 + link_index mod site_size gauge_field
         in case lat_get gauge_field k of
              Inl e \<Rightarrow> Some (Threw e gauge_field)
            | Inr _ \<Rightarrow>
                (let beta_prime = r_div_int nm (beta_over action) Nc
                 in subgroup_sweep_over nm Nc staple beta_prime k [0..<num_subgroups Nc]
                      (gauge_field, g))))"

subsection \<open>A field of three different links\<close>

text \<open>
  Three links on one site, the identity in the middle, and an action whose staples are
  \<open>tiny_staple\<close>: the update of the middle link takes the branch of the uniform sampler.
\<close>

definition three_link_field :: "cmat lattice" where
  "three_link_field =
     \<lparr>lat_shape = [1], site_size = 3,
      lat_data = [cm_scale \<i> (cm_identity 2), cm_identity 2, cm_scale 2 (cm_identity 2)]\<rparr>"

definition tiny_staples :: "(real, complex) gauge_action_over" where
  "tiny_staples = \<lparr>beta_over = 1, compute_staples_over = (\<lambda>F l. tiny_staple)\<rparr>"

section \<open>Colour vectors\<close>

text \<open>\<open>ColourVector<Real, Nc>\<close>: its entries by index, as for colour matrices.\<close>

type_synonym cvec = "nat \<Rightarrow> complex"

definition cv_zero :: cvec where
  "cv_zero = (\<lambda>r. 0)"

definition cv_add :: "cvec \<Rightarrow> cvec \<Rightarrow> cvec" where
  "cv_add u v = (\<lambda>r. u r + v r)"

definition cm_apply :: "nat \<Rightarrow> cmat \<Rightarrow> cvec \<Rightarrow> cvec" where
  "cm_apply Nc M v = (\<lambda>r. if r < Nc then (\<Sum>k<Nc. M r k * v k) else 0)"

text \<open>\<open>x[i] += v\<close> on the elements of a lattice of colour vectors.\<close>

definition cv_add_at :: "cvec list \<Rightarrow> nat \<Rightarrow> cvec \<Rightarrow> error + cvec list" where
  "cv_add_at xs i v = (if i < length xs then Inr (xs[i := cv_add (xs ! i) v]) else Inl OutOfBounds)"

section \<open>The hopping matrix (fermions/hopping_matrix.hpp)\<close>

text \<open>
  \<open>Eigen::MatrixXcd\<close>, the type of the spin structures: the rows of a matrix of dynamic
  size.  \<open>coeff (alpha, beta)\<close> outside the matrix reads beyond its storage; the model makes
  it the error \<open>OutOfBounds\<close>.
\<close>

type_synonym spin_matrix = "complex list list"

definition coeff :: "spin_matrix \<Rightarrow> nat \<Rightarrow> nat \<Rightarrow> error + complex" where
  "coeff S alpha beta' = bind_err (vec_get S alpha) (\<lambda>row. vec_get row beta')"

record hopping_matrix =
  scattered_gauge_field :: "cmat lattice"
  spin_structures :: "spin_matrix list"
  neighbour_array_indices :: "nat list list"
  num_spins :: nat

text \<open>The element \<open>(site, offset)\<close> of a lattice, and the element at site coordinates.\<close>

definition lat_index :: "'a lattice \<Rightarrow> nat \<Rightarrow> nat \<Rightarrow> nat" where
  "lat_index F site offset = get_array_index (lat_shape F) site * site_size F + offset"

definition lat_index_coords :: "'a lattice \<Rightarrow> int list \<Rightarrow> nat \<Rightarrow> nat" where
  "lat_index_coords F coords offset =
     get_array_index (lat_shape F) (get_site_index (lat_shape F) coords) * site_size F + offset"

text \<open>
  One round of the loop over the hops \<open>h\<close> in the constructor, on the state
  (site coordinates, scattered field):
  \<^verbatim>\<open>
  site_coords[d] += h - Nhops;
  layout.sanitize_site_coords(site_coords);
  scattered_gauge_field_(site_index, 2 * d) *= gauge_field(site_coords, d);
  site_coords[d] += Nhops;
  layout.sanitize_site_coords(site_coords);
  scattered_gauge_field_(site_index, 2 * d + 1) *= gauge_field(site_coords, d);
  site_coords[d] -= h;
  \<close>
  \<open>h\<close> and \<open>Nhops\<close> are unsigned, so \<open>h - Nhops\<close> wraps around; added to a signed
  coordinate the wrap-around is undone by that of the sum, and the coordinate changes by
  the integer \<open>h - Nhops\<close>.  The coordinates are the integers of the layout above.
\<close>

definition hop_step ::
  "nat \<Rightarrow> nat \<Rightarrow> cmat lattice \<Rightarrow> nat list \<Rightarrow> nat \<Rightarrow> nat \<Rightarrow> nat
   \<Rightarrow> int list \<times> cmat lattice \<Rightarrow> error + int list \<times> cmat lattice" where
  "hop_step Nhops Nc gauge_field shape site_index d h st =
     (case st of (site_coords, S) \<Rightarrow>
        bind_err (vec_get site_coords d) (\<lambda>c0.
        let coords1 = sanitize_site_coords shape (site_coords[d := c0 + (int h - int Nhops)]) in
        bind_err (lat_get S (lat_index S site_index (2 * d))) (\<lambda>bck.
        bind_err (lat_get gauge_field (lat_index_coords gauge_field coords1 d)) (\<lambda>link1.
        bind_err (lat_set S (lat_index S site_index (2 * d)) (cm_mult Nc bck link1)) (\<lambda>S1.
        bind_err (vec_get coords1 d) (\<lambda>c1.
        let coords2 = sanitize_site_coords shape (coords1[d := c1 + int Nhops]) in
        bind_err (lat_get S1 (lat_index S1 site_index (2 * d + 1))) (\<lambda>fwd.
        bind_err (lat_get gauge_field (lat_index_coords gauge_field coords2 d)) (\<lambda>link2.
        bind_err (lat_set S1 (lat_index S1 site_index (2 * d + 1)) (cm_mult Nc fwd link2)) (\<lambda>S2.
        bind_err (vec_get coords2 d) (\<lambda>c2.
        Inr (coords2[d := c2 - int h], S2)))))))))))"

text \<open>
  The body of the loop over the axes \<open>d\<close>, for one site: the phases, the two slots
  \<open>2 d\<close> (backward) and \<open>2 d + 1\<close> (forward), the hops, and the two neighbours.  The state
  is (scattered field, neighbour table).  The identity is \<open>ColourMatrix<double, 3>\<close>'s.
\<close>

definition hop_axis ::
  "nat \<Rightarrow> nat \<Rightarrow> cmat lattice \<Rightarrow> complex list \<Rightarrow> nat list \<Rightarrow> nat \<Rightarrow> nat
   \<Rightarrow> cmat lattice \<times> nat list list \<Rightarrow> error + cmat lattice \<times> nat list list" where
  "hop_axis Nhops Nc gauge_field phases shape site_index d st =
     (case st of (S, neighbours) \<Rightarrow>
        let arr_index = get_array_index shape site_index;
            site_coords = compute_site_coords shape site_index in
        bind_err (vec_get site_coords d) (\<lambda>c.
        bind_err (vec_get shape d) (\<lambda>extent.
        bind_err (vec_get phases d) (\<lambda>phase.
        let phase_fwd = (if c + int Nhops \<ge> int extent then phase else 1);
            phase_bck = (if c < int Nhops then phase else 1) in
        bind_err (lat_set S (lat_index S site_index (2 * d))
                    (cm_scale phase_bck (cm_identity 3))) (\<lambda>S1.
        bind_err (lat_set S1 (lat_index S1 site_index (2 * d + 1))
                    (cm_scale phase_fwd (cm_identity 3))) (\<lambda>S2.
        bind_err (for_loop [0..<Nhops] (hop_step Nhops Nc gauge_field shape site_index d)
                    (site_coords, S2)) (\<lambda>(coords3, S3).
        bind_err (vec_get coords3 d) (\<lambda>c3.
        let coords4 = sanitize_site_coords shape (coords3[d := c3 - int Nhops]);
            site_index_minus = get_site_index shape coords4 in
        bind_err (vec_get coords4 d) (\<lambda>c4.
        let coords5 = sanitize_site_coords shape (coords4[d := c4 + 2 * int Nhops]);
            site_index_plus = get_site_index shape coords5;
            arr_index_minus = get_array_index shape site_index_minus;
            arr_index_plus = get_array_index shape site_index_plus in
        bind_err (vec_get neighbours arr_index) (\<lambda>row.
        bind_err (vec_set row (2 * d) arr_index_minus) (\<lambda>row1.
        bind_err (vec_set row1 (2 * d + 1) arr_index_plus) (\<lambda>row2.
        Inr (S3, neighbours[arr_index := row2])))))))))))))"

text \<open>
  The two-argument constructor \<open>HoppingMatrix(gauge_field, phases)\<close>: the scattered field
  has \<open>2 * num_dims\<close> elements for each site, the spin structures stay empty, the
  neighbour table has \<open>volume\<close> rows of \<open>2 * num_dims\<close> zeros, and
  \<open>num_spins = 2 ^ (num_dims / 2)\<close>.
\<close>

definition HoppingMatrix ::
  "nat \<Rightarrow> nat \<Rightarrow> (nat \<Rightarrow> cmat) \<Rightarrow> cmat lattice \<Rightarrow> complex list \<Rightarrow> error + hopping_matrix" where
  "HoppingMatrix Nhops Nc initial gauge_field phases =
     (let shape = lat_shape gauge_field;
          ndims = length shape;
          S0 = lattice_new shape (2 * ndims) initial;
          neighbours0 = replicate (volume shape) (replicate (ndims * 2) 0) in
      bind_err (for_loop [0..<volume shape]
                  (\<lambda>site_index. for_loop [0..<ndims]
                     (hop_axis Nhops Nc gauge_field phases shape site_index))
                  (S0, neighbours0)) (\<lambda>(S, neighbours).
      Inr \<lparr>scattered_gauge_field = S, spin_structures = [],
           neighbour_array_indices = neighbours, num_spins = 2 ^ (ndims div 2)\<rparr>))"

text \<open>The three-argument constructor and \<open>set_spin_structures\<close>.\<close>

definition set_spin_structures :: "spin_matrix list \<Rightarrow> hopping_matrix \<Rightarrow> hopping_matrix" where
  "set_spin_structures matrices hm = hm\<lparr>spin_structures := matrices\<rparr>"

definition HoppingMatrix3 ::
  "nat \<Rightarrow> nat \<Rightarrow> (nat \<Rightarrow> cmat) \<Rightarrow> cmat lattice \<Rightarrow> complex list \<Rightarrow> spin_matrix list
   \<Rightarrow> error + hopping_matrix" where
  "HoppingMatrix3 Nhops Nc initial gauge_field phases matrices =
     bind_err (HoppingMatrix Nhops Nc initial gauge_field phases)
       (\<lambda>hm. Inr (set_spin_structures matrices hm))"

text \<open>
  \<open>apply_full\<close>, first part: the innermost statements of the loops over
  \<open>arr_index\<close>, \<open>mu\<close>, \<open>alpha\<close>, \<open>beta\<close>, on the elements of \<open>pre_gather_results\<close>:
  \<^verbatim>\<open>
  pre_gather_results[num_spins_ * local_index + 2 * alpha] +=
      spin_structures_[2 * mu].coeff(alpha, beta) *
      scattered_gauge_field_[local_index] * fermion_in[ndims * arr_index + beta];
  pre_gather_results[num_spins_ * local_index + 2 * alpha + 1] +=
      spin_structures_[2 * mu + 1].coeff(alpha, beta) *
      scattered_gauge_field_[local_index + 1].adjoint() * fermion_in[ndims * arr_index + beta];
  \<close>
  with \<open>local_index = 2 * (ndims * arr_index + mu)\<close>.
\<close>

definition gather_step ::
  "nat \<Rightarrow> hopping_matrix \<Rightarrow> cvec lattice \<Rightarrow> nat \<Rightarrow> nat \<Rightarrow> nat \<Rightarrow> nat \<Rightarrow> nat
   \<Rightarrow> cvec list \<Rightarrow> error + cvec list" where
  "gather_step Nc hm fermion_in ndims arr_index mu alpha beta' pre =
     (let local_index = 2 * (ndims * arr_index + mu) in
      bind_err (vec_get (spin_structures hm) (2 * mu)) (\<lambda>spin0.
      bind_err (coeff spin0 alpha beta') (\<lambda>z0.
      bind_err (lat_get (scattered_gauge_field hm) local_index) (\<lambda>U0.
      bind_err (lat_get fermion_in (ndims * arr_index + beta')) (\<lambda>psi.
      bind_err (cv_add_at pre (num_spins hm * local_index + 2 * alpha)
                  (cm_apply Nc (cm_scale z0 U0) psi)) (\<lambda>pre1.
      bind_err (vec_get (spin_structures hm) (2 * mu + 1)) (\<lambda>spin1.
      bind_err (coeff spin1 alpha beta') (\<lambda>z1.
      bind_err (lat_get (scattered_gauge_field hm) (local_index + 1)) (\<lambda>U1.
      cv_add_at pre1 (num_spins hm * local_index + 2 * alpha + 1)
        (cm_apply Nc (cm_scale z1 (cm_adjoint U1)) psi))))))))))"

definition pre_gather ::
  "nat \<Rightarrow> hopping_matrix \<Rightarrow> cvec lattice \<Rightarrow> cvec list \<Rightarrow> error + cvec list" where
  "pre_gather Nc hm fermion_in pre0 =
     (let ndims = length (lat_shape fermion_in) in
      for_loop [0..<volume (lat_shape fermion_in)] (\<lambda>arr_index.
        for_loop [0..<ndims] (\<lambda>mu.
          for_loop [0..<num_spins hm] (\<lambda>alpha.
            for_loop [0..<num_spins hm]
              (gather_step Nc hm fermion_in ndims arr_index mu alpha)))) pre0)"

text \<open>
  Second part: the statements of the loops over \<open>arr_index\<close>, \<open>mu\<close>, \<open>alpha\<close>, on the
  elements of \<open>fermion_out\<close>:
  \<^verbatim>\<open>
  fermion_out[num_spins_ * neighbour_index_plus + alpha] += pre_gather_results[gather_index];
  fermion_out[num_spins_ * neighbour_index_minus + alpha] += pre_gather_results[gather_index + 1];
  \<close>
  with \<open>neighbour_index_plus = neighbour_array_indices_[arr_index][2 * mu]\<close>,
  \<open>neighbour_index_minus = neighbour_array_indices_[arr_index][2 * mu + 1]\<close> and
  \<open>gather_index = 2 * (num_spins_ * (ndims * arr_index + mu) + alpha)\<close>.
\<close>

definition scatter_step ::
  "hopping_matrix \<Rightarrow> cvec list \<Rightarrow> nat \<Rightarrow> nat \<Rightarrow> nat \<Rightarrow> nat
   \<Rightarrow> cvec list \<Rightarrow> error + cvec list" where
  "scatter_step hm pre ndims arr_index mu alpha out =
     bind_err (vec_get (neighbour_array_indices hm) arr_index) (\<lambda>row.
     bind_err (vec_get row (2 * mu)) (\<lambda>neighbour_index_plus.
     bind_err (vec_get row (2 * mu + 1)) (\<lambda>neighbour_index_minus.
     let gather_index = 2 * (num_spins hm * (ndims * arr_index + mu) + alpha) in
     bind_err (vec_get pre gather_index) (\<lambda>p0.
     bind_err (cv_add_at out (num_spins hm * neighbour_index_plus + alpha) p0) (\<lambda>out1.
     bind_err (vec_get pre (gather_index + 1)) (\<lambda>p1.
     cv_add_at out1 (num_spins hm * neighbour_index_minus + alpha) p1))))))"

definition scatter ::
  "hopping_matrix \<Rightarrow> nat list \<Rightarrow> cvec list \<Rightarrow> cvec list \<Rightarrow> error + cvec list" where
  "scatter hm shape pre out =
     (let ndims = length shape in
      for_loop [0..<volume shape] (\<lambda>arr_index.
        for_loop [0..<ndims] (\<lambda>mu.
          for_loop [0..<num_spins hm] (scatter_step hm pre ndims arr_index mu))) out)"

text \<open>
  \<open>apply_full(fermion_out, fermion_in)\<close>.  \<open>pre_gather_results\<close> is a lattice built from
  the layout of \<open>fermion_in\<close> and the site size \<open>ndims * num_spins_ * 2\<close>, with the initial
  elements \<open>initial\<close>.  No statement of the function assigns to \<open>fermion_out\<close> other than
  by \<open>+=\<close>.
\<close>

definition apply_full ::
  "nat \<Rightarrow> (nat \<Rightarrow> cvec) \<Rightarrow> hopping_matrix \<Rightarrow> cvec lattice \<Rightarrow> cvec lattice
   \<Rightarrow> error + cvec lattice" where
  "apply_full Nc initial hm fermion_out fermion_in =
     (let shape = lat_shape fermion_in;
          ndims = length shape;
          pre_gather_results = lattice_new shape (ndims * num_spins hm * 2) initial in
      bind_err (pre_gather Nc hm fermion_in (lat_data pre_gather_results)) (\<lambda>pre.
      bind_err (scatter hm shape pre (lat_data fermion_out)) (\<lambda>out.
      Inr (fermion_out\<lparr>lat_data := out\<rparr>))))"

subsection \<open>What the constructor is meant to store\<close>

text \<open>
  The site \<open>k\<close> steps from the site \<open>s\<close> along the axis \<open>d\<close> under periodic wrap, the link of
  a field at a site and an axis, and the straight-line product of \<open>H\<close> links along \<open>d\<close>
  starting from a site, multiplied from the right onto an initial matrix.
\<close>

definition shift_site :: "nat list \<Rightarrow> nat \<Rightarrow> nat \<Rightarrow> int \<Rightarrow> nat" where
  "shift_site shape s d k =
     get_site_index shape
       (sanitize_site_coords shape
          ((compute_site_coords shape s)[d := compute_site_coords shape s ! d + k]))"

definition link_at :: "cmat lattice \<Rightarrow> nat \<Rightarrow> nat \<Rightarrow> cmat" where
  "link_at U s d = lat_data U ! (s * site_size U + d)"

definition link_product :: "nat \<Rightarrow> cmat lattice \<Rightarrow> nat list \<Rightarrow> nat \<Rightarrow> nat \<Rightarrow> nat \<Rightarrow> cmat \<Rightarrow> cmat" where
  "link_product Nc U shape s d H init =
     foldl (\<lambda>M h. cm_mult Nc M (link_at U (shift_site shape s d (int h)) d)) init [0..<H]"

definition phase_forward :: "complex list \<Rightarrow> nat list \<Rightarrow> nat \<Rightarrow> nat \<Rightarrow> nat \<Rightarrow> complex" where
  "phase_forward phases shape s d H =
     (if compute_site_coords shape s ! d + int H \<ge> int (shape ! d) then phases ! d else 1)"

definition phase_backward :: "complex list \<Rightarrow> nat list \<Rightarrow> nat \<Rightarrow> nat \<Rightarrow> nat \<Rightarrow> complex" where
  "phase_backward phases shape s d H =
     (if compute_site_coords shape s ! d < int H then phases ! d else 1)"

subsection \<open>Notions used in the theorems about the hopping matrix\<close>


text \<open>A shape with positive extents, and site coordinates within a shape.\<close>

definition shape_ok :: "nat list \<Rightarrow> bool" where
  "shape_ok shape \<longleftrightarrow> list_all (\<lambda>extent. 0 < extent) shape"

definition coords_in_range :: "nat list \<Rightarrow> int list \<Rightarrow> bool" where
  "coords_in_range shape coords \<longleftrightarrow> list_all2 (\<lambda>c extent. 0 \<le> c \<and> c < int extent) coords shape"

text \<open>
  What the spec makes the constructor store for a site \<open>s\<close> and an axis \<open>d\<close>: in the forward
  slot the product of the \<open>H\<close> links along \<open>d\<close> from \<open>s\<close>, begun with the forward phase; in
  the backward slot the product of the \<open>H\<close> links along \<open>d\<close> from the site \<open>H\<close> steps back,
  begun with the backward phase.
\<close>

definition forward_slot ::
  "nat \<Rightarrow> cmat lattice \<Rightarrow> complex list \<Rightarrow> nat \<Rightarrow> nat \<Rightarrow> nat \<Rightarrow> cmat" where
  "forward_slot Nc U phases s d H =
     link_product Nc U (lat_shape U) s d H
       (cm_scale (phase_forward phases (lat_shape U) s d H) (cm_identity 3))"

definition backward_slot ::
  "nat \<Rightarrow> cmat lattice \<Rightarrow> complex list \<Rightarrow> nat \<Rightarrow> nat \<Rightarrow> nat \<Rightarrow> cmat" where
  "backward_slot Nc U phases s d H =
     link_product Nc U (lat_shape U) (shift_site (lat_shape U) s d (- int H)) d H
       (cm_scale (phase_backward phases (lat_shape U) s d H) (cm_identity 3))"

text \<open>
  The product after \<open>h\<close> rounds of the loop over the hops, the state of the two loops over
  sites and axes, and what holds of the site-axis pairs already visited.
\<close>

definition partial_product ::
  "nat \<Rightarrow> cmat lattice \<Rightarrow> nat \<Rightarrow> nat \<Rightarrow> int \<Rightarrow> cmat \<Rightarrow> nat \<Rightarrow> cmat" where
  "partial_product Nc U s d off init h =
     foldl (\<lambda>M h'. cm_mult Nc M (link_at U (shift_site (lat_shape U) s d (int h' + off)) d))
       init [0..<h]"

definition axis_done ::
  "nat \<Rightarrow> nat \<Rightarrow> cmat lattice \<Rightarrow> complex list \<Rightarrow> cmat lattice \<Rightarrow> nat list list
   \<Rightarrow> nat \<Rightarrow> nat \<Rightarrow> bool" where
  "axis_done Nhops Nc U phases S neighbours s d \<longleftrightarrow>
     lat_data S ! (s * site_size S + 2 * d) = backward_slot Nc U phases s d Nhops
     \<and> lat_data S ! (s * site_size S + 2 * d + 1) = forward_slot Nc U phases s d Nhops
     \<and> neighbours ! s ! (2 * d) = shift_site (lat_shape U) s d (- int Nhops)
     \<and> neighbours ! s ! (2 * d + 1) = shift_site (lat_shape U) s d (int Nhops)"

definition hop_state_ok :: "cmat lattice \<Rightarrow> cmat lattice \<Rightarrow> nat list list \<Rightarrow> bool" where
  "hop_state_ok U S neighbours \<longleftrightarrow>
     site_size S = 2 * length (lat_shape U)
     \<and> length (lat_data S) = volume (lat_shape U) * (2 * length (lat_shape U))
     \<and> length neighbours = volume (lat_shape U)
     \<and> (\<forall>s < volume (lat_shape U). length (neighbours ! s) = 2 * length (lat_shape U))"

definition done_before ::
  "nat \<Rightarrow> nat \<Rightarrow> cmat lattice \<Rightarrow> complex list \<Rightarrow> nat \<Rightarrow> nat
   \<Rightarrow> cmat lattice \<times> nat list list \<Rightarrow> bool" where
  "done_before Nhops Nc U phases s d st \<longleftrightarrow>
     hop_state_ok U (fst st) (snd st)
     \<and> (\<forall>s' d'. s' < volume (lat_shape U) \<and> d' < length (lat_shape U)
            \<and> (s' < s \<or> (s' = s \<and> d' < d))
            \<longrightarrow> axis_done Nhops Nc U phases (fst st) (snd st) s' d')"

subsection \<open>Concrete lattices\<close>

text \<open>
  One site on one axis with an identity link, its hopping matrix as the two-argument
  constructor builds it, two one-by-one spin structures, a fermion field of one element,
  and a field of two sites on one axis with the links \<open>I\<close> and \<open>\<i> I\<close>.
\<close>

definition one_site_gauge_field :: "cmat lattice" where
  "one_site_gauge_field = \<lparr>lat_shape = [1], site_size = 1, lat_data = [cm_identity 3]\<rparr>"

definition unit_spin_structures :: "spin_matrix list" where
  "unit_spin_structures = [[[1]], [[1]]]"

definition one_site_fermion :: "cvec \<Rightarrow> cvec lattice" where
  "one_site_fermion v = \<lparr>lat_shape = [1], site_size = 1, lat_data = [v]\<rparr>"

definition cv_unit :: cvec where
  "cv_unit = (\<lambda>r. if r = 0 then 1 else 0)"

definition one_site_hopping_matrix :: hopping_matrix where
  "one_site_hopping_matrix =
     \<lparr>scattered_gauge_field =
        \<lparr>lat_shape = [1], site_size = 2,
         lat_data = [cm_mult 3 (cm_scale 1 (cm_identity 3)) (cm_identity 3),
                     cm_mult 3 (cm_scale 1 (cm_identity 3)) (cm_identity 3)]\<rparr>,
      spin_structures = [],
      neighbour_array_indices = [[0, 0]],
      num_spins = 1\<rparr>"

definition two_site_gauge_field :: "cmat lattice" where
  "two_site_gauge_field =
     \<lparr>lat_shape = [2], site_size = 1,
      lat_data = [cm_identity 3, cm_scale \<i> (cm_identity 3)]\<rparr>"

section \<open>Fermion actions and the conjugate gradient\<close>

text \<open>
  A spinor field enters the solver as the vector of its complex components.  The inner
  product conjugates its first argument.
\<close>

type_synonym fermion = "complex list"

definition fv_scale :: "complex \<Rightarrow> fermion \<Rightarrow> fermion" where
  "fv_scale z v = map (\<lambda>a. z * a) v"



definition fv_zero :: "nat \<Rightarrow> fermion" where
  "fv_zero n = replicate n 0"

definition fv_dot :: "fermion \<Rightarrow> fermion \<Rightarrow> complex" where
  "fv_dot u v = sum_list (map2 (\<lambda>a b. cnj a * b) u v)"








section \<open>Theorems: the SU(2) subgroups\<close>

subsection \<open>The loop of the position lookup follows the lexicographic enumeration\<close>








lemma compute_su2_subgroup_pos_raises_iff:
  "(\<exists>e. compute_su2_subgroup_pos Nc index = Inl e) \<longleftrightarrow> \<not> index < of_nat Nc"
  by (auto simp: compute_su2_subgroup_pos_def pyQCDassert_def split: prod.splits)

subsection \<open>Algebra of the extracted matrices\<close>



lemma su2_shaped_det:
  assumes "su2_shaped A"
  shows "m2_determinant A = complex_of_real ((cmod (m00 A))\<^sup>2 + (cmod (m01 A))\<^sup>2)"
proof -
  have "m2_determinant A = m00 A * cnj (m00 A) + m01 A * cnj (m01 A)"
    using assms by (simp add: su2_shaped_def m2_determinant_def)
  also have "\<dots> = complex_of_real ((cmod (m00 A))\<^sup>2) + complex_of_real ((cmod (m01 A))\<^sup>2)"
    by (simp only: complex_norm_square)
  finally show ?thesis by simp
qed

lemma su2_shaped_csqrt_det:
  assumes "su2_shaped A"
  shows "csqrt (m2_determinant A) = complex_of_real (sqrt ((cmod (m00 A))\<^sup>2 + (cmod (m01 A))\<^sup>2))"
  by (simp add: su2_shaped_det[OF assms] csqrt_of_real del: of_real_add of_real_power)





subsection \<open>Position lookup, extraction and insertion\<close>


lemma su2_pairs_4: "su2_pairs 4 = [(0, 1), (0, 2), (0, 3), (1, 2), (1, 3), (2, 3)]"
  by (simp add: su2_pairs_def su2_pairs_from_def upt_conv_Cons)

lemma su2_pairs_2: "su2_pairs 2 = [(0, 1)]"
  by (simp add: su2_pairs_def su2_pairs_from_def upt_conv_Cons)

lemma u32_2_le_1: "\<not> (2::u32) \<le> 1"
  by (simp add: word_le_nat_alt)

lemma pos_3_0: "compute_su2_subgroup_pos 3 0 = Inr (0, 1)"
  by (simp add: compute_su2_subgroup_pos_def pyQCDassert_def subgroup_pos_loop.simps u32_2_le_1)

lemma pos_3_1: "compute_su2_subgroup_pos 3 1 = Inr (0, 2)"
  by (simp add: compute_su2_subgroup_pos_def pyQCDassert_def subgroup_pos_loop.simps u32_2_le_1)

lemma pos_3_2: "compute_su2_subgroup_pos 3 2 = Inr (1, 2)"
  by (simp add: compute_su2_subgroup_pos_def pyQCDassert_def subgroup_pos_loop.simps u32_2_le_1)

lemma pos_2_0: "compute_su2_subgroup_pos 2 0 = Inr (0, 1)"
  by (simp add: compute_su2_subgroup_pos_def pyQCDassert_def subgroup_pos_loop.simps u32_2_le_1)

text \<open>
  Claim C6 (the lookup raises a range error exactly when \<open>k \<ge> Nc (Nc - 1) / 2\<close>) does not
  hold of the code: the check compares \<open>k\<close> with \<open>Nc\<close>.  For \<open>Nc = 4\<close> the in-range index
  \<open>k = 4 < 6\<close> raises the range error, and for \<open>Nc = 2\<close> the out-of-range index
  \<open>k = 1 \<ge> 1\<close> raises nothing and yields the position \<open>(2, 3)\<close>, outside the matrix.
\<close>

theorem subgroup_pos_range_check_compares_with_Nc:
  "compute_su2_subgroup_pos 4 4 = Inl RangeError \<and> (4::nat) < num_subgroups 4
   \<and> compute_su2_subgroup_pos 2 1 = Inr (2, 3) \<and> num_subgroups 2 \<le> (1::nat)"
  by (simp add: compute_su2_subgroup_pos_def pyQCDassert_def subgroup_pos_loop.simps
      num_subgroups_def u32_2_le_1)

text \<open>
  Claim C7 (for every \<open>k < Nc (Nc - 1) / 2\<close> the lookup returns the \<open>k\<close>-th pair in
  lexicographic order) does not hold of the code for \<open>Nc \<ge> 4\<close>: of the six pairs of
  \<open>Nc = 4\<close> the fifth, \<open>(1, 3)\<close>, and the sixth, \<open>(2, 3)\<close>, are never returned; the lookup
  raises the range error at \<open>k = 4\<close> and \<open>k = 5\<close>.
\<close>

theorem subgroup_pos_misses_pairs_beyond_Nc:
  "length (su2_pairs 4) = 6
   \<and> su2_pairs 4 ! 4 = (1, 3) \<and> compute_su2_subgroup_pos 4 4 = Inl RangeError
   \<and> su2_pairs 4 ! 5 = (2, 3) \<and> compute_su2_subgroup_pos 4 5 = Inl RangeError"
  by (simp add: su2_pairs_4 compute_su2_subgroup_pos_def pyQCDassert_def)

lemma subgroup_pos_Nc3:
  "compute_su2_subgroup_pos 3 0 = Inr (0, 1) \<and> compute_su2_subgroup_pos 3 1 = Inr (0, 2)
   \<and> compute_su2_subgroup_pos 3 2 = Inr (1, 2) \<and> compute_su2_subgroup_pos 3 3 = Inl RangeError"
  by (simp add: pos_3_0 pos_3_1 pos_3_2) (simp add: compute_su2_subgroup_pos_def pyQCDassert_def)








section \<open>Theorems: the heatbath update\<close>

subsection \<open>The link update changes one link\<close>


lemma bind_outcome_simps [simp]:
  "bind_outcome None f = None"
  "bind_outcome (Some (Inl e)) f = Some (Inl e)"
  "bind_outcome (Some (Inr x)) f = f x"
  by (simp_all add: bind_outcome_def)


lemma link_index_split: "0 < ss \<Longrightarrow> (l div ss) * ss + l mod ss = (l::nat)"
  by simp


subsection \<open>The degenerate branch\<close>

lemma cm_mult_zero_right: "cm_mult Nc A cm_zero = cm_zero"
  by (simp add: cm_mult_def cm_zero_def fun_eq_iff)

lemma extract_su2_zero:
  "compute_su2_subgroup_pos Nc k = Inr (i, j) \<Longrightarrow> unat i < Nc \<Longrightarrow> unat j < Nc \<Longrightarrow>
   extract_su2 Nc cm_zero k = Inr (Mat2 0 0 0 0)"
  by (simp add: extract_su2_def cm_zero_def m2_add_def m2_sub_def m2_scale_def
      m2_adjoint_def m2_trace_def m2_identity_def)

lemma su2_heatbath_update_zero_staple:
  assumes "compute_su2_subgroup_pos Nc k = Inr (i, j)" "unat i < Nc" "unat j < Nc"
  shows "su2_heatbath_update Nc link cm_zero w k g = Some (Inl NonFinite)"
  by (simp add: su2_heatbath_update_def cm_mult_zero_right extract_su2_zero[OF assms]
      m2_determinant_def m2_div_def)

lemma eps_pos: "0 < real_epsilon"
  by (simp add: real_epsilon_def)

lemma lessThan_2: "{..<(2::nat)} = {0, 1}"
  by auto

lemma W_tiny: "cm_mult 2 (cm_identity 2) tiny_staple 0 0 = 0"
  "cm_mult 2 (cm_identity 2) tiny_staple 0 (Suc 0) = complex_of_real (real_epsilon / 2)"
  "cm_mult 2 (cm_identity 2) tiny_staple (Suc 0) 0 = complex_of_real (- real_epsilon / 2)"
  "cm_mult 2 (cm_identity 2) tiny_staple (Suc 0) (Suc 0) = 0"
  by (simp_all add: cm_mult_def cm_identity_def tiny_staple_def cm_set_def cm_zero_def lessThan_2)

lemma extract_tiny:
  "extract_su2 2 (cm_mult 2 (cm_identity 2) tiny_staple) 0
   = Inr (Mat2 0 (complex_of_real real_epsilon) (- complex_of_real real_epsilon) 0)"
  by (simp add: extract_su2_def pos_2_0 W_tiny m2_add_def m2_sub_def m2_scale_def
      m2_adjoint_def m2_trace_def m2_identity_def)

lemma csqrt_eps2:
  "csqrt (complex_of_real real_epsilon * complex_of_real real_epsilon) = complex_of_real real_epsilon"
proof -
  have "csqrt (complex_of_real (real_epsilon * real_epsilon)) = complex_of_real (sqrt (real_epsilon * real_epsilon))"
    by (rule csqrt_of_real) (simp add: real_epsilon_def)
  then show ?thesis using eps_pos by simp
qed

lemma su2_heatbath_update_tiny_staple:
  "su2_heatbath_update 2 (cm_identity 2) tiny_staple w 0 g
   = (case insert_su2 2 (m2_mult (fst (random_su2 g)) (Mat2 0 (- 1) 1 0)) 0 of
        Inl e \<Rightarrow> Some (Inl e)
      | Inr N \<Rightarrow> Some (Inr (cm_mult 2 N (cm_identity 2), snd (random_su2 g))))"
proof -
  have nz: "complex_of_real real_epsilon \<noteq> 0" using eps_pos by simp
  have small: "real_epsilon < 6 * real_epsilon" using eps_pos by simp
  show ?thesis
    using nz small
    by (simp add: su2_heatbath_update_def extract_tiny m2_determinant_def csqrt_eps2
        m2_div_def m2_adjoint_def case_prod_beta)
qed

lemma random_su2_zero_stream:
  "fst (random_su2 (\<lambda>_. 0)) = Mat2 (- \<i>) 0 0 \<i>"
  by (simp add: random_su2_def generate_real_def construct_su2_def m2_add_def m2_scale_def
      sigma0_def sigma1_def sigma2_def sigma3_def m2_identity_def)

text \<open>
  Claim C2 (in the degenerate branch \<open>a < 6 \<epsilon>\<close> the step inserts the uniform matrix \<open>X\<close>
  itself and never divides by \<open>sqrt (det R)\<close>) does not hold of the code.  The division
  \<open>A /= sqrt_detA\<close> stands before the test: with a vanishing staple it divides by zero and
  the link is no number any more.  And the matrix inserted is \<open>X * A\<^sup>\<dagger>\<close> in both branches:
  with the staple \<open>tiny_staple\<close> (\<open>a = \<epsilon>\<close>) and the random source that draws zeros,
  \<open>X\<close> is \<open>diag (- \<i>, \<i>)\<close> but the new link is \<open>((0, \<i>), (\<i>, 0))\<close>.
\<close>

theorem su2_heatbath_update_divides_before_the_test:
  "su2_heatbath_update 2 (cm_identity 2) cm_zero w 0 g = Some (Inl NonFinite)
   \<and> fst (random_su2 (\<lambda>_. 0)) = Mat2 (- \<i>) 0 0 \<i>
   \<and> (\<exists>L g'. su2_heatbath_update 2 (cm_identity 2) tiny_staple w 0 (\<lambda>_. 0) = Some (Inr (L, g'))
          \<and> cm_block L 0 1 = Mat2 0 \<i> \<i> 0)"
proof -
  have a: "su2_heatbath_update 2 (cm_identity 2) cm_zero w 0 g = Some (Inl NonFinite)"
    by (rule su2_heatbath_update_zero_staple[OF pos_2_0]) simp_all
  have b: "m2_mult (Mat2 (- \<i>) 0 0 \<i>) (Mat2 0 (- 1) 1 0) = Mat2 0 \<i> \<i> 0"
    by (simp add: m2_mult_def)
  define N where "N = cm_set (cm_set (cm_set (cm_set (cm_identity 2) 0 0 0) 0 1 \<i>) 1 0 \<i>) 1 1 0"
  have ins: "insert_su2 2 (Mat2 0 \<i> \<i> 0) 0 = Inr N"
    by (simp add: insert_su2_def pos_2_0 N_def)
  have run: "su2_heatbath_update 2 (cm_identity 2) tiny_staple w 0 (\<lambda>_. 0)
             = Some (Inr (cm_mult 2 N (cm_identity 2), snd (random_su2 (\<lambda>_. 0))))"
    by (simp add: su2_heatbath_update_tiny_staple random_su2_zero_stream b ins)
  have blk: "cm_block (cm_mult 2 N (cm_identity 2)) 0 1 = Mat2 0 \<i> \<i> 0"
    by (simp add: cm_block_def cm_mult_def N_def cm_set_def cm_identity_def lessThan_2)
  have c: "\<exists>L g'. su2_heatbath_update 2 (cm_identity 2) tiny_staple w 0 (\<lambda>_. 0) = Some (Inr (L, g'))
          \<and> cm_block L 0 1 = Mat2 0 \<i> \<i> 0"
    using run blk by blast
  from a random_su2_zero_stream c show ?thesis by blast
qed

lemma upt_Suc_left: "[0..<Suc n] = 0 # [Suc 0..<Suc n]"
  by (simp add: upt_conv_Cons)

text \<open>
  Claim C1 (after \<open>heatbath_update\<close> every link is still in SU(N)) does not hold of the
  code: from the field of identity links, with an action of positive \<open>beta\<close> whose staples
  vanish, the first link update of every run of one sweep or more divides by zero
  (\<open>A /= sqrt_detA\<close> with \<open>sqrt_detA = 0\<close>, before the test for the degenerate case), so the
  link holds no numbers afterwards.
\<close>

theorem heatbath_update_vanishing_staples:
  "heatbath_update 3 unit_gauge_field vanishing_staples (Suc n) g = Some (Inl NonFinite)"
proof -
  have su: "su2_heatbath_update 3 (cm_identity 3) cm_zero w 0 g = Some (Inl NonFinite)" for w
    by (rule su2_heatbath_update_zero_staple[OF pos_3_0]) simp_all
  have ns: "[0..<num_subgroups 3] = 0 # [Suc 0..<3]"
    by (simp add: num_subgroups_def upt_conv_Cons)
  have lu: "heatbath_link_update 3 unit_gauge_field vanishing_staples 0 g = Some (Inl NonFinite)"
    by (simp add: heatbath_link_update_def unit_gauge_field_def vanishing_staples_def
        lat_get_def ns su)
  have sz: "[0..<lat_size unit_gauge_field] = 0 # [Suc 0..<4]"
    by (simp add: lat_size_def unit_gauge_field_def volume_def upt_conv_Cons)
  show ?thesis
    by (simp add: heatbath_update_def sz lu)
qed










section \<open>Theorems: the hopping matrix\<close>

subsection \<open>The output field is accumulated into\<close>

lemma bind_err_simps [simp]:
  "bind_err (Inl e) f = Inl e"
  "bind_err (Inr x) f = f x"
  by (simp_all add: bind_err_def)

lemma bind_err_Inr:
  "bind_err m f = Inr y \<longleftrightarrow> (\<exists>x. m = Inr x \<and> f x = Inr y)"
  by (cases m) simp_all

lemma cv_add_zero [simp]: "cv_add u cv_zero = u"
  by (simp add: cv_add_def cv_zero_def)















subsection \<open>The spin structures are indexed up to \<open>2 * Nd - 1\<close>\<close>

lemma for_loop_success_mem:
  "for_loop xs body s = Inr s' \<Longrightarrow> i \<in> set xs \<Longrightarrow> \<exists>t t'. body i t = Inr t'"
proof (induction xs arbitrary: s)
  case Nil
  then show ?case by simp
next
  case (Cons x xs)
  from Cons.prems(1) obtain s1 where s1: "body x s = Inr s1" "for_loop xs body s1 = Inr s'"
    by (auto simp: bind_err_Inr)
  show ?case
  proof (cases "i = x")
    case True
    with s1(1) show ?thesis by blast
  next
    case False
    with Cons.prems(2) have "i \<in> set xs" by simp
    from Cons.IH[OF s1(2) this] show ?thesis .
  qed
qed

lemma for_loop_always_fails:
  "xs \<noteq> [] \<Longrightarrow> (\<And>i s. body i s = Inl e) \<Longrightarrow> for_loop xs body s = Inl e"
  by (cases xs) simp_all

lemma gather_step_needs_spin_structure:
  "gather_step Nc hm fermion_in ndims arr_index mu alpha beta' pre = Inr pre'
   \<Longrightarrow> 2 * mu + 1 < length (spin_structures hm)"
  by (auto simp: gather_step_def Let_def bind_err_Inr vec_get_def split: if_splits)

lemma gather_step_no_spin_structures:
  "spin_structures hm = [] \<Longrightarrow>
   gather_step Nc hm fermion_in ndims arr_index mu alpha beta' pre = Inl OutOfBounds"
  by (simp add: gather_step_def Let_def vec_get_def)

lemma pre_gather_needs_spin_structures:
  assumes ok: "pre_gather Nc hm fermion_in pre0 = Inr pre"
    and vol: "0 < volume (lat_shape fermion_in)" and nd: "0 < length (lat_shape fermion_in)"
    and ns: "0 < num_spins hm"
  shows "2 * length (lat_shape fermion_in) \<le> length (spin_structures hm)"
proof -
  define ndims where "ndims = length (lat_shape fermion_in)"
  have m0: "0 \<in> set [0..<volume (lat_shape fermion_in)]" using vol by simp
  have m1: "ndims - 1 \<in> set [0..<ndims]" using nd by (simp add: ndims_def)
  have m2: "0 \<in> set [0..<num_spins hm]" using ns by simp
  from ok have ok': "for_loop [0..<volume (lat_shape fermion_in)] (\<lambda>arr_index.
        for_loop [0..<ndims] (\<lambda>mu.
          for_loop [0..<num_spins hm] (\<lambda>alpha.
            for_loop [0..<num_spins hm]
              (gather_step Nc hm fermion_in ndims arr_index mu alpha)))) pre0 = Inr pre"
    unfolding pre_gather_def Let_def ndims_def[symmetric] .
  from for_loop_success_mem[OF ok' m0] obtain t1 t1' where
    "for_loop [0..<ndims] (\<lambda>mu.
          for_loop [0..<num_spins hm] (\<lambda>alpha.
            for_loop [0..<num_spins hm]
              (gather_step Nc hm fermion_in ndims 0 mu alpha))) t1 = Inr t1'"
    by blast
  from for_loop_success_mem[OF this m1] obtain t2 t2' where
    "for_loop [0..<num_spins hm] (\<lambda>alpha.
            for_loop [0..<num_spins hm]
              (gather_step Nc hm fermion_in ndims 0 (ndims - 1) alpha)) t2 = Inr t2'"
    by blast
  from for_loop_success_mem[OF this m2] obtain t3 t3' where
    "for_loop [0..<num_spins hm] (gather_step Nc hm fermion_in ndims 0 (ndims - 1) 0) t3 = Inr t3'"
    by blast
  from for_loop_success_mem[OF this m2] obtain t4 t4' where
    "gather_step Nc hm fermion_in ndims 0 (ndims - 1) 0 0 t4 = Inr t4'"
    by blast
  from gather_step_needs_spin_structure[OF this] nd show ?thesis
    by (simp add: ndims_def)
qed

lemma pre_gather_no_spin_structures:
  assumes "spin_structures hm = []"
    and vol: "0 < volume (lat_shape fermion_in)" and nd: "0 < length (lat_shape fermion_in)"
    and ns: "0 < num_spins hm"
  shows "pre_gather Nc hm fermion_in pre0 = Inl OutOfBounds"
proof -
  have a: "for_loop [0..<num_spins hm] (gather_step Nc hm fermion_in ndims arr mu alpha) s
           = Inl OutOfBounds" for ndims arr mu alpha s
    using ns by (intro for_loop_always_fails gather_step_no_spin_structures[OF assms(1)]) simp
  have b: "for_loop [0..<num_spins hm] (\<lambda>alpha.
             for_loop [0..<num_spins hm] (gather_step Nc hm fermion_in ndims arr mu alpha)) s
           = Inl OutOfBounds" for ndims arr mu s
    using ns by (intro for_loop_always_fails a) simp
  have c: "for_loop [0..<length (lat_shape fermion_in)] (\<lambda>mu. for_loop [0..<num_spins hm] (\<lambda>alpha.
             for_loop [0..<num_spins hm] (gather_step Nc hm fermion_in ndims arr mu alpha))) s
           = Inl OutOfBounds" for ndims arr s
    using nd by (intro for_loop_always_fails b) simp
  show ?thesis
    unfolding pre_gather_def Let_def
    using vol by (intro for_loop_always_fails c) simp
qed

lemma HoppingMatrix_fields:
  "HoppingMatrix Nhops Nc initial gauge_field phases = Inr hm \<Longrightarrow>
   spin_structures hm = [] \<and> num_spins hm = 2 ^ (length (lat_shape gauge_field) div 2)"
  by (auto simp: HoppingMatrix_def Let_def bind_err_Inr)

text \<open>
  Claim C10: on a lattice with at least one site and one axis, \<open>apply_full\<close> returns only
  if at least \<open>2 * Nd\<close> spin structures have been supplied, and on a hopping matrix as the
  two-argument constructor leaves it (no spin structures) it runs out of the bounds of the
  spin-structure sequence.
\<close>

theorem apply_full_needs_spin_structures:
  assumes "0 < volume (lat_shape fermion_in)" and "0 < length (lat_shape fermion_in)"
  shows "(\<forall>r. 0 < num_spins hm \<and> apply_full Nc initial hm fermion_out fermion_in = Inr r
            \<longrightarrow> 2 * length (lat_shape fermion_in) \<le> length (spin_structures hm))
         \<and> (\<forall>Nhops initial' gauge_field phases.
              HoppingMatrix Nhops Nc initial' gauge_field phases = Inr hm
              \<longrightarrow> spin_structures hm = []
                  \<and> apply_full Nc initial hm fermion_out fermion_in = Inl OutOfBounds)"
proof (intro conjI allI impI)
  fix r
  assume a: "0 < num_spins hm \<and> apply_full Nc initial hm fermion_out fermion_in = Inr r"
  then obtain pre where "pre_gather Nc hm fermion_in
            (lat_data (lattice_new (lat_shape fermion_in)
               (length (lat_shape fermion_in) * num_spins hm * 2) initial)) = Inr pre"
    by (auto simp: apply_full_def Let_def bind_err_Inr)
  from pre_gather_needs_spin_structures[OF this assms] a
  show "2 * length (lat_shape fermion_in) \<le> length (spin_structures hm)" by simp
next
  fix Nhops initial' gauge_field phases
  assume c: "HoppingMatrix Nhops Nc initial' gauge_field phases = Inr hm"
  from HoppingMatrix_fields[OF c] show e: "spin_structures hm = []" by simp
  from HoppingMatrix_fields[OF c] have ns: "0 < num_spins hm" by simp
  show "apply_full Nc initial hm fermion_out fermion_in = Inl OutOfBounds"
    by (simp add: apply_full_def Let_def pre_gather_no_spin_structures[OF e assms ns])
qed

subsection \<open>The one-site lattice\<close>

lemma volume_simps [simp]: "volume [] = 1" "volume (x # xs) = x * volume xs"
  by (simp_all add: volume_def)

lemma HoppingMatrix_one_site:
  "HoppingMatrix 1 3 initial one_site_gauge_field [1] = Inr one_site_hopping_matrix"
  by (simp add: HoppingMatrix_def one_site_gauge_field_def one_site_hopping_matrix_def
      lattice_new_def hop_axis_def hop_step_def Let_def vec_get_def vec_set_def lat_get_def
      lat_set_def lat_index_def lat_index_coords_def get_array_index_def
      sanitize_site_coords_def upt_conv_Cons numeral_2_eq_2)

lemma apply_full_one_site:
  "apply_full 3 (\<lambda>_. cv_zero) (set_spin_structures unit_spin_structures one_site_hopping_matrix)
     (one_site_fermion w) (one_site_fermion v)
   = Inr (one_site_fermion
       (cv_add (cv_add w
          (cv_add cv_zero (cm_apply 3 (cm_scale 1 (cm_mult 3 (cm_scale 1 (cm_identity 3)) (cm_identity 3))) v)))
          (cv_add cv_zero (cm_apply 3 (cm_scale 1 (cm_adjoint (cm_mult 3 (cm_scale 1 (cm_identity 3)) (cm_identity 3)))) v))))"
  by (simp add: apply_full_def set_spin_structures_def unit_spin_structures_def
      one_site_hopping_matrix_def one_site_fermion_def lattice_new_def pre_gather_def
      scatter_def gather_step_def scatter_step_def Let_def vec_get_def coeff_def lat_get_def
      cv_add_at_def upt_conv_Cons)





text \<open>
  Witness for C10: the one-site lattice; as constructed the hopping matrix fails in
  \<open>apply_full\<close>, with two spin structures set it returns.
\<close>

theorem apply_full_needs_spin_structures_witness:
  "0 < volume [1] \<and> 0 < length [1::nat]
   \<and> HoppingMatrix 1 3 (\<lambda>_. cm_zero) one_site_gauge_field [1] = Inr one_site_hopping_matrix
   \<and> spin_structures one_site_hopping_matrix = []
   \<and> apply_full 3 (\<lambda>_. cv_zero) one_site_hopping_matrix
        (one_site_fermion cv_zero) (one_site_fermion cv_unit) = Inl OutOfBounds
   \<and> (\<exists>r. apply_full 3 (\<lambda>_. cv_zero)
             (set_spin_structures unit_spin_structures one_site_hopping_matrix)
             (one_site_fermion cv_zero) (one_site_fermion cv_unit) = Inr r)
   \<and> 2 * length [1::nat]
      \<le> length (spin_structures (set_spin_structures unit_spin_structures one_site_hopping_matrix))"
proof -
  have v: "0 < volume (lat_shape (one_site_fermion cv_unit))"
    and l: "0 < length (lat_shape (one_site_fermion cv_unit))"
    by (simp_all add: one_site_fermion_def)
  note c = HoppingMatrix_one_site[of "\<lambda>_. cm_zero"]
  have ns: "0 < num_spins (set_spin_structures unit_spin_structures one_site_hopping_matrix)"
    by (simp add: set_spin_structures_def one_site_hopping_matrix_def)
  obtain r where r: "apply_full 3 (\<lambda>_. cv_zero)
             (set_spin_structures unit_spin_structures one_site_hopping_matrix)
             (one_site_fermion cv_zero) (one_site_fermion cv_unit) = Inr r"
    by (simp add: apply_full_one_site)
  from apply_full_needs_spin_structures[OF v l, of one_site_hopping_matrix 3 "\<lambda>_. cv_zero"
      "one_site_fermion cv_zero"] c
  have a: "spin_structures one_site_hopping_matrix = []"
    "apply_full 3 (\<lambda>_. cv_zero) one_site_hopping_matrix
        (one_site_fermion cv_zero) (one_site_fermion cv_unit) = Inl OutOfBounds"
    by blast+
  from apply_full_needs_spin_structures[OF v l,
      of "set_spin_structures unit_spin_structures one_site_hopping_matrix" 3 "\<lambda>_. cv_zero"
      "one_site_fermion cv_zero"] ns r
  have b: "2 * length (lat_shape (one_site_fermion cv_unit))
        \<le> length (spin_structures (set_spin_structures unit_spin_structures one_site_hopping_matrix))"
    by blast
  from a b c r show ?thesis
    by (simp add: one_site_fermion_def)
qed

subsection \<open>The lexicographic layout\<close>

lemma volume_pos: "shape_ok shape \<Longrightarrow> 0 < volume shape"
  by (induction shape) (simp_all add: shape_ok_def)

lemma shape_ok_Cons [simp]: "shape_ok (L # Ls) \<longleftrightarrow> 0 < L \<and> shape_ok Ls"
  by (simp add: shape_ok_def)

lemma coords_in_range_Cons [simp]:
  "coords_in_range (L # Ls) (c # cs) \<longleftrightarrow> 0 \<le> c \<and> c < int L \<and> coords_in_range Ls cs"
  by (simp add: coords_in_range_def)

lemma coords_in_range_Nil [simp]: "coords_in_range [] []"
  by (simp add: coords_in_range_def)

lemma coords_in_range_length: "coords_in_range shape cs \<Longrightarrow> length cs = length shape"
  by (simp add: coords_in_range_def list_all2_lengthD)

lemma coords_in_range_nth:
  "coords_in_range shape cs \<Longrightarrow> i < length shape \<Longrightarrow> 0 \<le> cs ! i \<and> cs ! i < int (shape ! i)"
  by (simp add: coords_in_range_def list_all2_conv_all_nth)

lemma compute_site_coords_in_range:
  "shape_ok shape \<Longrightarrow> coords_in_range shape (compute_site_coords shape s)"
  by (induction shape arbitrary: s) simp_all

lemma length_compute_site_coords [simp]:
  "length (compute_site_coords shape s) = length shape"
  by (induction shape arbitrary: s) simp_all

lemma get_site_index_bound:
  "coords_in_range shape cs \<Longrightarrow> shape_ok shape \<Longrightarrow> get_site_index shape cs < volume shape"
proof (induction shape arbitrary: cs)
  case Nil
  then show ?case by (simp add: coords_in_range_def)
next
  case (Cons L Ls)
  from Cons.prems(1) obtain c cs' where cs: "cs = c # cs'"
    by (cases cs) (simp_all add: coords_in_range_def)
  from Cons.prems cs have c: "0 \<le> c" "c < int L" and r: "coords_in_range Ls cs'"
    and ok: "shape_ok Ls" by simp_all
  from Cons.IH[OF r ok] have g: "get_site_index Ls cs' < volume Ls" .
  have "nat c + 1 \<le> L" using c by simp
  then have "(nat c + 1) * volume Ls \<le> L * volume Ls" by (rule mult_le_mono1)
  moreover have "nat c * volume Ls + get_site_index Ls cs' < (nat c + 1) * volume Ls"
    using g by simp
  ultimately show ?case by (simp add: cs)
qed

lemma get_site_index_compute_site_coords:
  "shape_ok shape \<Longrightarrow> s < volume shape \<Longrightarrow> get_site_index shape (compute_site_coords shape s) = s"
proof (induction shape arbitrary: s)
  case Nil
  then show ?case by simp
next
  case (Cons L Ls)
  then have ok: "shape_ok Ls" and L: "0 < L" by simp_all
  have V: "0 < volume Ls" by (rule volume_pos[OF ok])
  have "s div volume Ls < L"
    using Cons.prems(2) V by (simp add: less_mult_imp_div_less mult.commute)
  then have m: "(s div volume Ls) mod L = s div volume Ls" by simp
  have "s mod volume Ls < volume Ls" using V by simp
  from Cons.IH[OF ok this] show ?case
    by (simp add: m)
qed

lemma compute_site_coords_get_site_index:
  "coords_in_range shape cs \<Longrightarrow> shape_ok shape \<Longrightarrow>
   compute_site_coords shape (get_site_index shape cs) = cs"
proof (induction shape arbitrary: cs)
  case Nil
  then show ?case by (simp add: coords_in_range_def)
next
  case (Cons L Ls)
  from Cons.prems(1) obtain c cs' where cs: "cs = c # cs'"
    by (cases cs) (simp_all add: coords_in_range_def)
  from Cons.prems cs have c: "0 \<le> c" "c < int L" and r: "coords_in_range Ls cs'"
    and ok: "shape_ok Ls" by simp_all
  have g: "get_site_index Ls cs' < volume Ls" by (rule get_site_index_bound[OF r ok])
  have d: "(nat c * volume Ls + get_site_index Ls cs') div volume Ls = nat c"
    using g by simp
  have m: "(nat c * volume Ls + get_site_index Ls cs') mod volume Ls = get_site_index Ls cs'"
    using g by simp
  have "nat c mod L = nat c" using c by simp
  with Cons.IH[OF r ok] c g show ?case
    by (simp add: cs)
qed

lemma sanitize_update:
  assumes r: "coords_in_range shape cs" and d: "d < length shape"
  shows "sanitize_site_coords shape (cs[d := v]) = cs[d := v mod int (shape ! d)]"
proof (rule nth_equalityI)
  show "length (sanitize_site_coords shape (cs[d := v])) = length (cs[d := v mod int (shape ! d)])"
    using coords_in_range_length[OF r] by (simp add: sanitize_site_coords_def)
next
  fix i
  assume "i < length (sanitize_site_coords shape (cs[d := v]))"
  then have i: "i < length shape"
    using coords_in_range_length[OF r] by (simp add: sanitize_site_coords_def)
  show "sanitize_site_coords shape (cs[d := v]) ! i = cs[d := v mod int (shape ! d)] ! i"
  proof (cases "i = d")
    case True
    then show ?thesis
      using i coords_in_range_length[OF r] by (simp add: sanitize_site_coords_def)
  next
    case False
    from coords_in_range_nth[OF r i] have "cs ! i mod int (shape ! i) = cs ! i" by simp
    with False show ?thesis
      using i coords_in_range_length[OF r] by (simp add: sanitize_site_coords_def)
  qed
qed

lemma coords_in_range_update:
  assumes r: "coords_in_range shape cs" and d: "d < length shape" and L: "0 < shape ! d"
  shows "coords_in_range shape (cs[d := v mod int (shape ! d)])"
  unfolding coords_in_range_def list_all2_conv_all_nth
proof (intro conjI allI impI)
  show "length (cs[d := v mod int (shape ! d)]) = length shape"
    using coords_in_range_length[OF r] by simp
next
  fix i
  assume "i < length (cs[d := v mod int (shape ! d)])"
  then have i: "i < length shape" using coords_in_range_length[OF r] by simp
  show "0 \<le> cs[d := v mod int (shape ! d)] ! i"
    using coords_in_range_nth[OF r i] i L coords_in_range_length[OF r]
    by (cases "i = d") simp_all
  show "cs[d := v mod int (shape ! d)] ! i < int (shape ! i)"
    using coords_in_range_nth[OF r i] i L coords_in_range_length[OF r]
    by (cases "i = d") simp_all
qed

lemma shape_ok_nth: "shape_ok shape \<Longrightarrow> d < length shape \<Longrightarrow> 0 < shape ! d"
  by (simp add: shape_ok_def list_all_length)

lemma shift_site_eq:
  assumes ok: "shape_ok shape" and d: "d < length shape"
  shows "shift_site shape s d k
         = get_site_index shape
             ((compute_site_coords shape s)
                [d := (compute_site_coords shape s ! d + k) mod int (shape ! d)])"
  unfolding shift_site_def
  by (simp add: sanitize_update[OF compute_site_coords_in_range[OF ok] d])

lemma shift_site_bound:
  assumes ok: "shape_ok shape" and d: "d < length shape"
  shows "shift_site shape s d k < volume shape"
  unfolding shift_site_eq[OF ok d]
  by (intro get_site_index_bound coords_in_range_update compute_site_coords_in_range ok d
      shape_ok_nth)

lemma shift_site_shift_site:
  assumes ok: "shape_ok shape" and d: "d < length shape"
  shows "shift_site shape (shift_site shape s d a) d b = shift_site shape s d (a + b)"
proof -
  define cs where "cs = compute_site_coords shape s"
  define L where "L = int (shape ! d)"
  have r: "coords_in_range shape cs"
    unfolding cs_def by (rule compute_site_coords_in_range[OF ok])
  have len: "length cs = length shape" by (simp add: cs_def)
  have r1: "coords_in_range shape (cs[d := (cs ! d + a) mod L])"
    unfolding L_def by (rule coords_in_range_update[OF r d shape_ok_nth[OF ok d]])
  have c1: "compute_site_coords shape (shift_site shape s d a) = cs[d := (cs ! d + a) mod L]"
    unfolding shift_site_eq[OF ok d] cs_def[symmetric] L_def[symmetric]
    by (rule compute_site_coords_get_site_index[OF r1 ok])
  have "shift_site shape (shift_site shape s d a) d b
        = get_site_index shape (cs[d := ((cs ! d + a) mod L + b) mod L])"
    unfolding shift_site_eq[OF ok d, of "shift_site shape s d a"] c1 L_def[symmetric]
    using d len by simp
  also have "((cs ! d + a) mod L + b) mod L = (cs ! d + (a + b)) mod L"
    by (simp add: mod_add_left_eq add.assoc)
  finally show ?thesis
    unfolding shift_site_eq[OF ok d, of s] cs_def[symmetric] L_def[symmetric] .
qed

lemma for_loop_upt_rule:
  assumes "P lo s" and "lo \<le> hi"
    and step: "\<And>i t. lo \<le> i \<Longrightarrow> i < hi \<Longrightarrow> P i t \<Longrightarrow> \<exists>t'. body i t = Inr t' \<and> P (Suc i) t'"
  shows "\<exists>s'. for_loop [lo..<hi] body s = Inr s' \<and> P hi s'"
  using assms(1,2) step
proof (induction "hi - lo" arbitrary: lo s)
  case 0
  then show ?case by simp
next
  case (Suc n)
  then have lt: "lo < hi" by simp
  from Suc.prems(3)[OF le_refl lt Suc.prems(1)] obtain t where
    t: "body lo s = Inr t" "P (Suc lo) t" by blast
  have n: "n = hi - Suc lo" using Suc.hyps(2) by simp
  have "\<exists>s'. for_loop [Suc lo..<hi] body t = Inr s' \<and> P hi s'"
  proof (rule Suc.hyps(1)[OF n t(2)])
    show "Suc lo \<le> hi" using lt by simp
  next
    fix i u
    assume "Suc lo \<le> i" "i < hi" "P i u"
    then show "\<exists>t'. body i u = Inr t' \<and> P (Suc i) t'"
      using Suc.prems(3)[of i u] by simp
  qed
  then show ?case
    using lt t(1) by (simp add: upt_conv_Cons)
qed

subsection \<open>The constructor\<close>

lemma partial_product_0 [simp]: "partial_product Nc U s d off init 0 = init"
  by (simp add: partial_product_def)

lemma partial_product_Suc:
  "partial_product Nc U s d off init (Suc h)
   = cm_mult Nc (partial_product Nc U s d off init h)
       (link_at U (shift_site (lat_shape U) s d (int h + off)) d)"
  by (simp add: partial_product_def)

lemma forward_slot_partial:
  "forward_slot Nc U phases s d H
   = partial_product Nc U s d 0
       (cm_scale (phase_forward phases (lat_shape U) s d H) (cm_identity 3)) H"
  by (simp add: forward_slot_def link_product_def partial_product_def)

lemma backward_slot_partial:
  assumes "shape_ok (lat_shape U)" "d < length (lat_shape U)"
  shows "backward_slot Nc U phases s d H
   = partial_product Nc U s d (- int H)
       (cm_scale (phase_backward phases (lat_shape U) s d H) (cm_identity 3)) H"
proof -
  have "shift_site (lat_shape U) (shift_site (lat_shape U) s d (- int H)) d (int h)
        = shift_site (lat_shape U) s d (int h + - int H)" for h
    by (simp add: shift_site_shift_site[OF assms] add.commute)
  then show ?thesis
    by (simp add: backward_slot_def link_product_def partial_product_def)
qed

lemma lat_get_in_range: "k < length (lat_data F) \<Longrightarrow> lat_get F k = Inr (lat_data F ! k)"
  by (simp add: lat_get_def)

lemma lat_set_in_range:
  "k < length (lat_data F) \<Longrightarrow> lat_set F k v = Inr (F\<lparr>lat_data := (lat_data F)[k := v]\<rparr>)"
  by (simp add: lat_set_def)

lemma lat_get_link:
  assumes wf: "length (lat_data U) = volume (lat_shape U) * site_size U"
    and r: "coords_in_range (lat_shape U) cs" and ok: "shape_ok (lat_shape U)"
    and d: "d < site_size U"
  shows "lat_get U (lat_index_coords U cs d) = Inr (link_at U (get_site_index (lat_shape U) cs) d)"
proof -
  have g: "get_site_index (lat_shape U) cs < volume (lat_shape U)"
    by (rule get_site_index_bound[OF r ok])
  have "get_site_index (lat_shape U) cs * site_size U + d
        < (get_site_index (lat_shape U) cs + 1) * site_size U"
    using d by simp
  also have "\<dots> \<le> volume (lat_shape U) * site_size U"
    using g by (intro mult_le_mono1) simp
  finally show ?thesis
    by (simp add: lat_get_def lat_index_coords_def get_array_index_def link_at_def wf)
qed

lemma hop_step_result:
  fixes U :: "cmat lattice" and S :: "cmat lattice"
  assumes ok: "shape_ok (lat_shape U)" and d: "d < length (lat_shape U)"
    and ss: "site_size U = length (lat_shape U)"
    and wf: "length (lat_data U) = volume (lat_shape U) * site_size U"
    and x: "x mod int (lat_shape U ! d) = compute_site_coords (lat_shape U) s ! d"
    and kb: "s * site_size S + 2 * d + 1 < length (lat_data S)"
  shows "hop_step Nhops Nc U (lat_shape U) s d h ((compute_site_coords (lat_shape U) s)[d := x], S)
    = Inr ((compute_site_coords (lat_shape U) s)
             [d := (compute_site_coords (lat_shape U) s ! d + int h) mod int (lat_shape U ! d)
                   - int h],
           S\<lparr>lat_data := (lat_data S)
               [s * site_size S + 2 * d :=
                  cm_mult Nc (lat_data S ! (s * site_size S + 2 * d))
                    (link_at U (shift_site (lat_shape U) s d (int h - int Nhops)) d),
                s * site_size S + 2 * d + 1 :=
                  cm_mult Nc (lat_data S ! (s * site_size S + 2 * d + 1))
                    (link_at U (shift_site (lat_shape U) s d (int h)) d)]\<rparr>)"
proof -
  define shape where "shape = lat_shape U"
  define cs0 where "cs0 = compute_site_coords shape s"
  define L where "L = int (shape ! d)"
  define c where "c = cs0 ! d"
  have r0: "coords_in_range shape cs0"
    unfolding cs0_def shape_def by (rule compute_site_coords_in_range[OF ok])
  have len0: "length cs0 = length shape" by (simp add: cs0_def)
  have dl: "d < length shape" using d by (simp add: shape_def)
  have Lpos: "0 < shape ! d" using shape_ok_nth[OF ok d] by (simp add: shape_def)
  have xc: "x mod L = c" using x by (simp add: L_def c_def cs0_def shape_def)
  have crange: "c mod L = c"
    using coords_in_range_nth[OF r0 dl] by (simp add: c_def L_def)
  \<comment> \<open>first move\<close>
  have m1: "(x + (int h - int Nhops)) mod L = (c + (int h - int Nhops)) mod L"
    using xc crange by (metis mod_add_left_eq)
  have coords1: "sanitize_site_coords shape (cs0[d := x + (int h - int Nhops)])
                 = cs0[d := (c + (int h - int Nhops)) mod L]"
    by (simp add: sanitize_update[OF r0 dl] m1 L_def[symmetric])
  have r1: "coords_in_range shape (cs0[d := (c + (int h - int Nhops)) mod L])"
    unfolding L_def by (rule coords_in_range_update[OF r0 dl Lpos])
  have site1: "get_site_index shape (cs0[d := (c + (int h - int Nhops)) mod L])
               = shift_site shape s d (int h - int Nhops)"
    unfolding shift_site_eq[OF ok[folded shape_def] dl] cs0_def[symmetric] c_def L_def ..
  have link1: "lat_get U (lat_index_coords U (cs0[d := (c + (int h - int Nhops)) mod L]) d)
               = Inr (link_at U (shift_site shape s d (int h - int Nhops)) d)"
    using lat_get_link[OF wf r1[unfolded shape_def] ok] d ss site1
    by (simp add: shape_def)
  \<comment> \<open>second move\<close>
  have m2: "((c + (int h - int Nhops)) mod L + int Nhops) mod L = (c + int h) mod L"
    by (simp add: mod_add_left_eq)
  have coords2: "sanitize_site_coords shape
                   (cs0[d := (c + (int h - int Nhops)) mod L + int Nhops])
                 = cs0[d := (c + int h) mod L]"
    by (simp add: sanitize_update[OF r0 dl] m2 L_def[symmetric])
  have r2: "coords_in_range shape (cs0[d := (c + int h) mod L])"
    unfolding L_def by (rule coords_in_range_update[OF r0 dl Lpos])
  have site2: "get_site_index shape (cs0[d := (c + int h) mod L])
               = shift_site shape s d (int h)"
    unfolding shift_site_eq[OF ok[folded shape_def] dl] cs0_def[symmetric] c_def L_def by simp
  have link2: "lat_get U (lat_index_coords U (cs0[d := (c + int h) mod L]) d)
               = Inr (link_at U (shift_site shape s d (int h)) d)"
    using lat_get_link[OF wf r2[unfolded shape_def] ok] d ss site2
    by (simp add: shape_def)
  have kb': "s * site_size S + 2 * d < length (lat_data S)" using kb by simp
  show ?thesis
    unfolding shape_def[symmetric] cs0_def[symmetric] c_def[symmetric] L_def[symmetric]
    using kb kb' dl len0
    by (simp add: hop_step_def Let_def vec_get_def coords1 link1 coords2 link2
        lat_get_in_range lat_set_in_range lat_index_def get_array_index_def)
qed

lemma slot_index_bound:
  "s < vol \<Longrightarrow> j < m \<Longrightarrow> s * m + j < vol * (m::nat)"
proof -
  assume s: "s < vol" and j: "j < m"
  have "s * m + j < (s + 1) * m" using j by simp
  also have "\<dots> \<le> vol * m" using s by (intro mult_le_mono1) simp
  finally show ?thesis .
qed

lemma slot_index_inj:
  assumes "j < m" "j' < m"
  shows "s * m + j = s' * m + j' \<longleftrightarrow> s = s' \<and> j = (j'::nat)"
proof
  assume e: "s * m + j = s' * m + j'"
  have "(s * m + j) div m = s" "(s' * m + j') div m = s'" using assms by simp_all
  with e have "s = s'" by simp
  with e show "s = s' \<and> j = j'" by simp
qed simp

lemma hop_loop_result:
  fixes U :: "cmat lattice" and S :: "cmat lattice"
  assumes ok: "shape_ok (lat_shape U)" and d: "d < length (lat_shape U)"
    and ss: "site_size U = length (lat_shape U)"
    and wf: "length (lat_data U) = volume (lat_shape U) * site_size U"
    and kb: "s * site_size S + 2 * d + 1 < length (lat_data S)"
  shows "\<exists>x S'. for_loop [0..<Nhops] (hop_step Nhops Nc U (lat_shape U) s d)
                  (compute_site_coords (lat_shape U) s, S)
                = Inr ((compute_site_coords (lat_shape U) s)[d := x], S')
          \<and> x mod int (lat_shape U ! d) = compute_site_coords (lat_shape U) s ! d
          \<and> lat_shape S' = lat_shape S \<and> site_size S' = site_size S
          \<and> length (lat_data S') = length (lat_data S)
          \<and> lat_data S' ! (s * site_size S + 2 * d)
              = partial_product Nc U s d (- int Nhops) (lat_data S ! (s * site_size S + 2 * d)) Nhops
          \<and> lat_data S' ! (s * site_size S + 2 * d + 1)
              = partial_product Nc U s d 0 (lat_data S ! (s * site_size S + 2 * d + 1)) Nhops
          \<and> (\<forall>m. m \<noteq> s * site_size S + 2 * d \<and> m \<noteq> s * site_size S + 2 * d + 1
                \<longrightarrow> lat_data S' ! m = lat_data S ! m)"
proof -
  define cs0 where "cs0 = compute_site_coords (lat_shape U) s"
  define L where "L = int (lat_shape U ! d)"
  define kb where "kb = s * site_size S + 2 * d"
  define P where "P = (\<lambda>h (st :: int list \<times> cmat lattice).
      (\<exists>x. fst st = cs0[d := x] \<and> x mod L = cs0 ! d)
      \<and> lat_shape (snd st) = lat_shape S \<and> site_size (snd st) = site_size S
      \<and> length (lat_data (snd st)) = length (lat_data S)
      \<and> lat_data (snd st) ! kb = partial_product Nc U s d (- int Nhops) (lat_data S ! kb) h
      \<and> lat_data (snd st) ! (kb + 1) = partial_product Nc U s d 0 (lat_data S ! (kb + 1)) h
      \<and> (\<forall>m. m \<noteq> kb \<and> m \<noteq> kb + 1 \<longrightarrow> lat_data (snd st) ! m = lat_data S ! m))"
  have r0: "coords_in_range (lat_shape U) cs0"
    unfolding cs0_def by (rule compute_site_coords_in_range[OF ok])
  have c0: "cs0 ! d mod L = cs0 ! d"
    using coords_in_range_nth[OF r0 d] by (simp add: L_def)
  have kbl: "kb + 1 < length (lat_data S)" using kb by (simp add: kb_def)
  have init: "P 0 (cs0, S)"
    unfolding P_def using c0 by (auto intro: exI[of _ "cs0 ! d"])
  have step: "\<exists>t'. hop_step Nhops Nc U (lat_shape U) s d h t = Inr t' \<and> P (Suc h) t'"
    if "P h t" for h t
  proof -
    obtain coords T where t: "t = (coords, T)" by (cases t)
    from that obtain x where x: "coords = cs0[d := x]" "x mod L = cs0 ! d"
      and T: "lat_shape T = lat_shape S" "site_size T = site_size S"
        "length (lat_data T) = length (lat_data S)"
        "lat_data T ! kb = partial_product Nc U s d (- int Nhops) (lat_data S ! kb) h"
        "lat_data T ! (kb + 1) = partial_product Nc U s d 0 (lat_data S ! (kb + 1)) h"
        "\<forall>m. m \<noteq> kb \<and> m \<noteq> kb + 1 \<longrightarrow> lat_data T ! m = lat_data S ! m"
      unfolding P_def t by auto
    have kbT: "s * site_size T + 2 * d + 1 < length (lat_data T)"
      using kbl T by (simp add: kb_def)
    note res = hop_step_result[OF ok d ss wf x(2)[unfolded L_def cs0_def] kbT,
        of Nhops Nc h, folded cs0_def L_def, unfolded T(2), folded kb_def]
    have xm: "((cs0 ! d + int h) mod L - int h) mod L = cs0 ! d"
      using c0 by (simp add: mod_diff_left_eq)
    have ex: "\<exists>x. cs0[d := (cs0 ! d + int h) mod L - int h] = cs0[d := x] \<and> x mod L = cs0 ! d"
      using xm by blast
    show ?thesis
      unfolding t x(1) res P_def
      using kbl T ex
      by (simp add: partial_product_Suc nth_list_update)
  qed
  have "\<exists>st. for_loop [0..<Nhops] (hop_step Nhops Nc U (lat_shape U) s d) (cs0, S) = Inr st
          \<and> P Nhops st"
  proof (rule for_loop_upt_rule[where P = P])
    show "P 0 (cs0, S)" by (rule init)
    show "0 \<le> Nhops" by simp
    fix i t
    assume "P i t"
    then show "\<exists>t'. hop_step Nhops Nc U (lat_shape U) s d i t = Inr t' \<and> P (Suc i) t'"
      by (rule step)
  qed
  then obtain st where st: "for_loop [0..<Nhops] (hop_step Nhops Nc U (lat_shape U) s d) (cs0, S) = Inr st"
    "P Nhops st" by auto
  obtain coords S' where s': "st = (coords, S')" by (cases st)
  from st(2) show ?thesis
    unfolding P_def s' cs0_def[symmetric] L_def[symmetric] kb_def[symmetric]
    using st(1)[unfolded s'] by auto
qed

lemma hop_axis_result:
  fixes U :: "cmat lattice" and S :: "cmat lattice"
  assumes ok: "shape_ok (lat_shape U)" and ss: "site_size U = length (lat_shape U)"
    and wf: "length (lat_data U) = volume (lat_shape U) * site_size U"
    and lp: "length phases = length (lat_shape U)"
    and s: "s < volume (lat_shape U)" and d: "d < length (lat_shape U)"
    and st: "hop_state_ok U S neighbours"
  shows "\<exists>S' neighbours'.
           hop_axis Nhops Nc U phases (lat_shape U) s d (S, neighbours) = Inr (S', neighbours')
           \<and> hop_state_ok U S' neighbours'
           \<and> axis_done Nhops Nc U phases S' neighbours' s d
           \<and> (\<forall>s' d'. s' < volume (lat_shape U) \<and> d' < length (lat_shape U)
                  \<and> (s' \<noteq> s \<or> d' \<noteq> d) \<and> axis_done Nhops Nc U phases S neighbours s' d'
                  \<longrightarrow> axis_done Nhops Nc U phases S' neighbours' s' d')"
proof -
  define shape where "shape = lat_shape U"
  define nd where "nd = length shape"
  define vol where "vol = volume shape"
  define cs0 where "cs0 = compute_site_coords shape s"
  define c where "c = cs0 ! d"
  define L where "L = int (shape ! d)"
  define kb where "kb = s * (2 * nd) + 2 * d"
  define ib where "ib = cm_scale (phase_backward phases shape s d Nhops) (cm_identity 3)"
  define ifw where "ifw = cm_scale (phase_forward phases shape s d Nhops) (cm_identity 3)"
  define S2 where "S2 = S\<lparr>lat_data := (lat_data S)[kb := ib, kb + 1 := ifw]\<rparr>"
  from st have sS: "site_size S = 2 * nd" and lS: "length (lat_data S) = vol * (2 * nd)"
    and lN: "length neighbours = vol" and rN: "\<forall>s < vol. length (neighbours ! s) = 2 * nd"
    by (simp_all add: hop_state_ok_def shape_def nd_def vol_def)
  have dl: "d < nd" using d by (simp add: nd_def shape_def)
  have sv: "s < vol" using s by (simp add: vol_def shape_def)
  have kbl: "kb + 1 < vol * (2 * nd)"
    unfolding kb_def using slot_index_bound[OF sv, of "2 * d + 1" "2 * nd"] dl by simp
  have r0: "coords_in_range shape cs0"
    unfolding cs0_def shape_def by (rule compute_site_coords_in_range[OF ok])
  have len0: "length cs0 = nd" by (simp add: cs0_def nd_def)
  have crange: "c mod L = c"
    using coords_in_range_nth[OF r0] dl by (simp add: c_def L_def nd_def)
  have sS2: "site_size S2 = 2 * nd" and lS2: "length (lat_data S2) = vol * (2 * nd)"
    by (simp_all add: S2_def sS lS)
  have "s * site_size S2 + 2 * d + 1 < length (lat_data S2)"
    using kbl by (simp add: sS2 lS2 kb_def)
  from hop_loop_result[OF ok d ss wf this, of Nhops Nc]
  obtain x S3 where
    loop: "for_loop [0..<Nhops] (hop_step Nhops Nc U shape s d) (cs0, S2) = Inr (cs0[d := x], S3)"
    and xm: "x mod L = c"
    and S3: "lat_shape S3 = lat_shape S2" "site_size S3 = 2 * nd"
      "length (lat_data S3) = vol * (2 * nd)"
      "lat_data S3 ! kb = partial_product Nc U s d (- int Nhops) (lat_data S2 ! kb) Nhops"
      "lat_data S3 ! (kb + 1) = partial_product Nc U s d 0 (lat_data S2 ! (kb + 1)) Nhops"
      "\<forall>m. m \<noteq> kb \<and> m \<noteq> kb + 1 \<longrightarrow> lat_data S3 ! m = lat_data S2 ! m"
    unfolding shape_def[symmetric] cs0_def[symmetric] c_def[symmetric] L_def[symmetric]
      sS2 lS2 kb_def[symmetric]
    by auto
  have S2kb: "lat_data S2 ! kb = ib" "lat_data S2 ! (kb + 1) = ifw"
    using kbl by (simp_all add: S2_def lS)
  \<comment> \<open>the two neighbours\<close>
  define row where "row = (neighbours ! s)[2 * d := shift_site shape s d (- int Nhops),
                                            2 * d + 1 := shift_site shape s d (int Nhops)]"
  have m4: "(x - int Nhops) mod L = (c + - int Nhops) mod L"
    using xm crange by (metis mod_diff_left_eq diff_conv_add_uminus)
  have coords4: "sanitize_site_coords shape (cs0[d := x - int Nhops])
                 = cs0[d := (c + - int Nhops) mod L]"
    using dl by (simp add: sanitize_update[OF r0] m4 L_def[symmetric] nd_def
        del: add_uminus_conv_diff)
  have site4: "get_site_index shape (cs0[d := (c + - int Nhops) mod L])
               = shift_site shape s d (- int Nhops)"
    unfolding shift_site_eq[OF ok[folded shape_def] d[folded shape_def]]
      cs0_def[symmetric] c_def L_def ..
  have m5: "((c + - int Nhops) mod L + 2 * int Nhops) mod L = (c + int Nhops) mod L"
  proof -
    have "((c + - int Nhops) mod L + 2 * int Nhops) mod L = ((c + - int Nhops) + 2 * int Nhops) mod L"
      by (rule mod_add_left_eq)
    also have "(c + - int Nhops) + 2 * int Nhops = c + int Nhops" by simp
    finally show ?thesis .
  qed
  have coords5: "sanitize_site_coords shape (cs0[d := (c + - int Nhops) mod L + 2 * int Nhops])
                 = cs0[d := (c + int Nhops) mod L]"
    using dl by (simp add: sanitize_update[OF r0] m5 L_def[symmetric] nd_def
        del: add_uminus_conv_diff)
  have site5: "get_site_index shape (cs0[d := (c + int Nhops) mod L])
               = shift_site shape s d (int Nhops)"
    unfolding shift_site_eq[OF ok[folded shape_def] d[folded shape_def]]
      cs0_def[symmetric] c_def L_def ..
  have rowlen: "length (neighbours ! s) = 2 * nd" using rN sv by simp
  have run: "hop_axis Nhops Nc U phases shape s d (S, neighbours)
             = Inr (S3, neighbours[s := row])"
  proof -
    have a: "vec_get cs0 d = Inr c" "vec_get shape d = Inr (shape ! d)"
      "vec_get phases d = Inr (phases ! d)"
      using dl len0 lp by (simp_all add: vec_get_def c_def nd_def shape_def)
    have b: "lat_set S (lat_index S s (2 * d))
               (cm_scale (if c < int Nhops then phases ! d else 1) (cm_identity 3))
             = Inr (S\<lparr>lat_data := (lat_data S)[kb := ib]\<rparr>)"
      using kbl by (simp add: lat_set_in_range lat_index_def get_array_index_def sS lS kb_def
          ib_def phase_backward_def cs0_def c_def)
    have b2: "lat_set (S\<lparr>lat_data := (lat_data S)[kb := ib]\<rparr>)
                (lat_index (S\<lparr>lat_data := (lat_data S)[kb := ib]\<rparr>) s (2 * d + 1))
                (cm_scale (if int (shape ! d) \<le> c + int Nhops then phases ! d else 1)
                   (cm_identity 3))
             = Inr S2"
      using kbl by (simp add: lat_set_in_range lat_index_def get_array_index_def sS lS kb_def
          ifw_def phase_forward_def cs0_def c_def S2_def)
    have e: "vec_get (cs0[d := x]) d = Inr x"
      using dl len0 by (simp add: vec_get_def)
    have f: "vec_get (cs0[d := (c + - int Nhops) mod L]) d = Inr ((c + - int Nhops) mod L)"
      using dl len0 by (simp add: vec_get_def)
    have g: "vec_get neighbours s = Inr (neighbours ! s)"
      using sv lN by (simp add: vec_get_def)
    have h: "vec_set (neighbours ! s) (2 * d) v = Inr ((neighbours ! s)[2 * d := v])" for v
      using dl rowlen by (simp add: vec_set_def)
    have i: "vec_set ((neighbours ! s)[2 * d := v]) (2 * d + 1) w
             = Inr ((neighbours ! s)[2 * d := v, 2 * d + 1 := w])" for v w
      using dl rowlen by (simp add: vec_set_def)
    show ?thesis
      unfolding hop_axis_def Let_def prod.case cs0_def[symmetric]
      by (simp only: a b b2 loop e f g h i bind_err_simps prod.case list_update_overwrite
          coords4 site4 coords5 site5 get_array_index_def row_def)
  qed
  have rows: "length (neighbours[s := row] ! s') = 2 * nd" if "s' < vol" for s'
  proof (cases "s' = s")
    case True
    then show ?thesis using sv lN rowlen by (simp add: row_def)
  next
    case False
    then show ?thesis using rN that by simp
  qed
  have okS3: "hop_state_ok U S3 (neighbours[s := row])"
    unfolding hop_state_ok_def shape_def[symmetric] nd_def[symmetric] vol_def[symmetric]
    using S3(2,3) lN rows by simp
  have fin: "axis_done Nhops Nc U phases S3 (neighbours[s := row]) s d"
    using sv lN dl rowlen S3(4,5) S2kb
    by (simp add: axis_done_def S3(2) kb_def[symmetric]
        backward_slot_partial[OF ok d] forward_slot_partial
        shape_def[symmetric] ib_def ifw_def row_def)
  have keep: "axis_done Nhops Nc U phases S3 (neighbours[s := row]) s' d'"
    if p: "s' < vol" "d' < nd" "s' \<noteq> s \<or> d' \<noteq> d"
      and q: "axis_done Nhops Nc U phases S neighbours s' d'" for s' d'
  proof -
    have ne: "s' * (2 * nd) + 2 * d' \<noteq> kb" "s' * (2 * nd) + 2 * d' \<noteq> kb + 1"
      "s' * (2 * nd) + 2 * d' + 1 \<noteq> kb" "s' * (2 * nd) + 2 * d' + 1 \<noteq> kb + 1"
      unfolding kb_def
      using p(3) slot_index_inj[of "2 * d'" "2 * nd" "2 * d" s' s]
        slot_index_inj[of "2 * d'" "2 * nd" "2 * d + 1" s' s]
        slot_index_inj[of "2 * d' + 1" "2 * nd" "2 * d" s' s]
        slot_index_inj[of "2 * d' + 1" "2 * nd" "2 * d + 1" s' s] p(2) dl
      by (simp_all add: add.assoc) presburger+
    have same: "lat_data S3 ! (s' * (2 * nd) + 2 * d') = lat_data S ! (s' * (2 * nd) + 2 * d')"
      "lat_data S3 ! (s' * (2 * nd) + 2 * d' + 1) = lat_data S ! (s' * (2 * nd) + 2 * d' + 1)"
      using ne S3(6) by (simp_all add: S2_def)
    have nb: "neighbours[s := row] ! s' ! (2 * d') = neighbours ! s' ! (2 * d')"
      "neighbours[s := row] ! s' ! (2 * d' + 1) = neighbours ! s' ! (2 * d' + 1)"
      using p(3) sv lN by (auto simp: nth_list_update row_def)
    from q same nb show ?thesis
      by (simp add: axis_done_def S3(2) sS)
  qed
  from run okS3 fin keep show ?thesis
    unfolding shape_def[symmetric] nd_def[symmetric] vol_def[symmetric] by blast
qed

lemma hop_axis_done_before:
  fixes U :: "cmat lattice"
  assumes ok: "shape_ok (lat_shape U)" and ss: "site_size U = length (lat_shape U)"
    and wf: "length (lat_data U) = volume (lat_shape U) * site_size U"
    and lp: "length phases = length (lat_shape U)"
    and s: "s < volume (lat_shape U)" and d: "d < length (lat_shape U)"
    and inv: "done_before Nhops Nc U phases s d st"
  shows "\<exists>st'. hop_axis Nhops Nc U phases (lat_shape U) s d st = Inr st'
               \<and> done_before Nhops Nc U phases s (Suc d) st'"
proof -
  obtain S NB where st: "st = (S, NB)" by (cases st)
  from inv have okS: "hop_state_ok U S NB"
    and prev: "\<And>s' d'. s' < volume (lat_shape U) \<Longrightarrow> d' < length (lat_shape U)
            \<Longrightarrow> s' < s \<or> (s' = s \<and> d' < d) \<Longrightarrow> axis_done Nhops Nc U phases S NB s' d'"
    by (simp_all add: done_before_def st)
  from hop_axis_result[OF ok ss wf lp s d okS, of Nhops Nc]
  obtain S' NB' where run: "hop_axis Nhops Nc U phases (lat_shape U) s d (S, NB) = Inr (S', NB')"
    and ok': "hop_state_ok U S' NB'"
    and this_one: "axis_done Nhops Nc U phases S' NB' s d"
    and keep: "\<And>s' d'. s' < volume (lat_shape U) \<Longrightarrow> d' < length (lat_shape U)
            \<Longrightarrow> s' \<noteq> s \<or> d' \<noteq> d \<Longrightarrow> axis_done Nhops Nc U phases S NB s' d'
            \<Longrightarrow> axis_done Nhops Nc U phases S' NB' s' d'"
    by blast
  have "axis_done Nhops Nc U phases S' NB' s' d'"
    if "s' < volume (lat_shape U)" "d' < length (lat_shape U)"
      "s' < s \<or> (s' = s \<and> d' < Suc d)" for s' d'
  proof (cases "s' = s \<and> d' = d")
    case True
    with this_one show ?thesis by simp
  next
    case False
    with that(3) have "s' < s \<or> (s' = s \<and> d' < d)" by auto
    from keep[OF that(1,2) _ prev[OF that(1,2) this]] False show ?thesis by blast
  qed
  with run ok' show ?thesis by (auto simp: done_before_def st)
qed

lemma hop_site_done_before:
  fixes U :: "cmat lattice"
  assumes ok: "shape_ok (lat_shape U)" and ss: "site_size U = length (lat_shape U)"
    and wf: "length (lat_data U) = volume (lat_shape U) * site_size U"
    and lp: "length phases = length (lat_shape U)"
    and s: "s < volume (lat_shape U)"
    and inv: "done_before Nhops Nc U phases s 0 st"
  shows "\<exists>st'. for_loop [0..<length (lat_shape U)]
                  (hop_axis Nhops Nc U phases (lat_shape U) s) st = Inr st'
               \<and> done_before Nhops Nc U phases (Suc s) 0 st'"
proof -
  have "\<exists>st'. for_loop [0..<length (lat_shape U)]
                  (hop_axis Nhops Nc U phases (lat_shape U) s) st = Inr st'
               \<and> done_before Nhops Nc U phases s (length (lat_shape U)) st'"
  proof (rule for_loop_upt_rule[where P = "done_before Nhops Nc U phases s"])
    show "done_before Nhops Nc U phases s 0 st" by (rule inv)
    show "0 \<le> length (lat_shape U)" by simp
    fix d t
    assume "d < length (lat_shape U)" "done_before Nhops Nc U phases s d t"
    then show "\<exists>t'. hop_axis Nhops Nc U phases (lat_shape U) s d t = Inr t'
                  \<and> done_before Nhops Nc U phases s (Suc d) t'"
      by (rule hop_axis_done_before[OF ok ss wf lp s])
  qed
  moreover have "done_before Nhops Nc U phases (Suc s) 0 st'"
    if "done_before Nhops Nc U phases s (length (lat_shape U)) st'" for st'
    using that unfolding done_before_def by (auto simp: less_Suc_eq)
  ultimately show ?thesis by blast
qed

text \<open>
  Claim C4: for a gauge field on a layout of positive extents with one link for each axis
  and a phase for each axis, the constructor returns, and for every site \<open>s\<close> and axis \<open>d\<close>
  the slot \<open>2 d + 1\<close> of the site holds the product of the \<open>H\<close> links along \<open>d\<close> from \<open>s\<close>,
  begun with \<open>phase[d]\<close> exactly when \<open>c\<^sub>d + H \<ge> extent[d]\<close> (else 1); the slot \<open>2 d\<close>
  holds the product of the \<open>H\<close> links from the site \<open>H\<close> steps back, begun with \<open>phase[d]\<close>
  exactly when \<open>c\<^sub>d < H\<close> (else 1); and the neighbour table holds the sites \<open>H\<close> steps
  forward (entry \<open>2 d + 1\<close>) and backward (entry \<open>2 d\<close>) under periodic wrap.
\<close>

theorem HoppingMatrix_precompute:
  fixes U :: "cmat lattice"
  assumes "shape_ok (lat_shape U)" and "site_size U = length (lat_shape U)"
    and "lattice_wf U" and "length phases = length (lat_shape U)"
  shows "\<exists>hm. HoppingMatrix Nhops Nc initial U phases = Inr hm
          \<and> site_size (scattered_gauge_field hm) = 2 * length (lat_shape U)
          \<and> (\<forall>s d. s < volume (lat_shape U) \<and> d < length (lat_shape U) \<longrightarrow>
                lat_data (scattered_gauge_field hm) ! (s * (2 * length (lat_shape U)) + 2 * d + 1)
                  = forward_slot Nc U phases s d Nhops
                \<and> lat_data (scattered_gauge_field hm) ! (s * (2 * length (lat_shape U)) + 2 * d)
                  = backward_slot Nc U phases s d Nhops
                \<and> neighbour_array_indices hm ! s ! (2 * d + 1)
                  = shift_site (lat_shape U) s d (int Nhops)
                \<and> neighbour_array_indices hm ! s ! (2 * d)
                  = shift_site (lat_shape U) s d (- int Nhops))"
proof -
  define shape where "shape = lat_shape U"
  define nd where "nd = length shape"
  define S0 where "S0 = (lattice_new shape (2 * nd) initial :: cmat lattice)"
  define NB0 where "NB0 = replicate (volume shape) (replicate (nd * 2) (0::nat))"
  have wf: "length (lat_data U) = volume (lat_shape U) * site_size U"
    using assms(3) by (simp add: lattice_wf_def lat_size_def)
  have init: "done_before Nhops Nc U phases 0 0 (S0, NB0)"
    by (simp add: done_before_def hop_state_ok_def S0_def NB0_def lattice_new_def
        shape_def nd_def mult.commute)
  have "\<exists>st. for_loop [0..<volume shape]
               (\<lambda>site_index. for_loop [0..<nd] (hop_axis Nhops Nc U phases shape site_index))
               (S0, NB0) = Inr st
             \<and> done_before Nhops Nc U phases (volume shape) 0 st"
  proof (rule for_loop_upt_rule[where P = "\<lambda>s. done_before Nhops Nc U phases s 0"])
    show "done_before Nhops Nc U phases 0 0 (S0, NB0)" by (rule init)
    show "0 \<le> volume shape" by simp
    fix s t
    assume "s < volume shape" "done_before Nhops Nc U phases s 0 t"
    then show "\<exists>t'. for_loop [0..<nd] (hop_axis Nhops Nc U phases shape s) t = Inr t'
                  \<and> done_before Nhops Nc U phases (Suc s) 0 t'"
      unfolding shape_def nd_def
      by (intro hop_site_done_before[OF assms(1,2) wf assms(4)])
  qed
  then obtain S NB where run: "for_loop [0..<volume shape]
               (\<lambda>site_index. for_loop [0..<nd] (hop_axis Nhops Nc U phases shape site_index))
               (S0, NB0) = Inr (S, NB)"
    and fin: "done_before Nhops Nc U phases (volume shape) 0 (S, NB)"
    by auto
  have hm: "HoppingMatrix Nhops Nc initial U phases
        = Inr \<lparr>scattered_gauge_field = S, spin_structures = [],
               neighbour_array_indices = NB, num_spins = 2 ^ (nd div 2)\<rparr>"
    unfolding HoppingMatrix_def Let_def shape_def[symmetric] nd_def[symmetric]
      S0_def[symmetric] NB0_def[symmetric] run
    by simp
  from fin have sS: "site_size S = 2 * nd"
    and all: "\<And>s d. s < volume shape \<Longrightarrow> d < nd \<Longrightarrow> axis_done Nhops Nc U phases S NB s d"
    by (simp_all add: done_before_def hop_state_ok_def shape_def nd_def)
  show ?thesis
    unfolding hm shape_def[symmetric] nd_def[symmetric]
    using sS all by (simp add: axis_done_def shape_def)
qed

lemma shape_ok_Nil [simp]: "shape_ok []"
  by (simp add: shape_ok_def)

lemma two_site_facts:
  "shape_ok (lat_shape two_site_gauge_field)"
  "site_size two_site_gauge_field = length (lat_shape two_site_gauge_field)"
  "lattice_wf two_site_gauge_field"
  "length [- 1 :: complex] = length (lat_shape two_site_gauge_field)"
  by (simp_all add: two_site_gauge_field_def lattice_wf_def lat_size_def)

lemma two_site_shift:
  "shift_site [2] 1 0 0 = 1" "shift_site [2] 1 0 1 = 0" "shift_site [2] 1 0 (- 1) = 0"
  by (simp_all add: shift_site_def sanitize_site_coords_def)

lemma two_site_slots:
  "forward_slot 3 two_site_gauge_field [- 1] 1 0 1
   = cm_mult 3 (cm_scale (- 1) (cm_identity 3)) (cm_scale \<i> (cm_identity 3))"
  "backward_slot 3 two_site_gauge_field [- 1] 1 0 1
   = cm_mult 3 (cm_scale 1 (cm_identity 3)) (cm_identity 3)"
  by (simp_all add: forward_slot_def backward_slot_def link_product_def phase_forward_def
      phase_backward_def two_site_gauge_field_def two_site_shift link_at_def
      shift_site_def sanitize_site_coords_def)

text \<open>
  Witness for C4: two sites on one axis, one hop, phase \<open>- 1\<close>; at the site 1 the forward
  slot crosses the boundary and carries the phase, and both neighbours are the site 0.
\<close>

theorem HoppingMatrix_precompute_witness:
  "shape_ok [2] \<and> site_size two_site_gauge_field = length [2::nat]
   \<and> lattice_wf two_site_gauge_field \<and> length [- 1 :: complex] = length [2::nat]
   \<and> (\<exists>hm. HoppingMatrix 1 3 (\<lambda>_. cm_zero) two_site_gauge_field [- 1] = Inr hm
         \<and> lat_data (scattered_gauge_field hm) ! 3
             = cm_mult 3 (cm_scale (- 1) (cm_identity 3)) (cm_scale \<i> (cm_identity 3))
         \<and> lat_data (scattered_gauge_field hm) ! 2
             = cm_mult 3 (cm_scale 1 (cm_identity 3)) (cm_identity 3)
         \<and> neighbour_array_indices hm ! 1 ! 1 = 0
         \<and> neighbour_array_indices hm ! 1 ! 0 = 0)"
proof -
  from HoppingMatrix_precompute[OF two_site_facts, of 1 3 "\<lambda>_. cm_zero"]
  obtain hm where hm: "HoppingMatrix 1 3 (\<lambda>_. cm_zero) two_site_gauge_field [- 1] = Inr hm"
    and slots: "\<forall>s d. s < volume (lat_shape two_site_gauge_field)
                 \<and> d < length (lat_shape two_site_gauge_field) \<longrightarrow>
       lat_data (scattered_gauge_field hm)
         ! (s * (2 * length (lat_shape two_site_gauge_field)) + 2 * d + 1)
         = forward_slot 3 two_site_gauge_field [- 1] s d 1
       \<and> lat_data (scattered_gauge_field hm)
           ! (s * (2 * length (lat_shape two_site_gauge_field)) + 2 * d)
         = backward_slot 3 two_site_gauge_field [- 1] s d 1
       \<and> neighbour_array_indices hm ! s ! (2 * d + 1)
         = shift_site (lat_shape two_site_gauge_field) s d (int 1)
       \<and> neighbour_array_indices hm ! s ! (2 * d)
         = shift_site (lat_shape two_site_gauge_field) s d (- int 1)"
    by blast
  have sh: "lat_shape two_site_gauge_field = [2]"
    by (simp add: two_site_gauge_field_def)
  have idx: "(1::nat) * (2 * length [2::nat]) + 2 * 0 + 1 = 3"
    "(1::nat) * (2 * length [2::nat]) + 2 * 0 = 2" "2 * (0::nat) + 1 = 1" "2 * (0::nat) = 0"
    by simp_all
  have "(1::nat) < volume [2] \<and> (0::nat) < length [2::nat]"
    by simp
  with slots[unfolded sh, rule_format, of 1 0] have
    "lat_data (scattered_gauge_field hm) ! 3 = forward_slot 3 two_site_gauge_field [- 1] 1 0 1"
    "lat_data (scattered_gauge_field hm) ! 2 = backward_slot 3 two_site_gauge_field [- 1] 1 0 1"
    "neighbour_array_indices hm ! 1 ! 1 = shift_site [2] 1 0 1"
    "neighbour_array_indices hm ! 1 ! 0 = shift_site [2] 1 0 (- 1)"
    unfolding idx by simp_all
  then have
    "lat_data (scattered_gauge_field hm) ! 3
       = cm_mult 3 (cm_scale (- 1) (cm_identity 3)) (cm_scale \<i> (cm_identity 3))"
    "lat_data (scattered_gauge_field hm) ! 2
       = cm_mult 3 (cm_scale 1 (cm_identity 3)) (cm_identity 3)"
    "neighbour_array_indices hm ! 1 ! 1 = 0"
    "neighbour_array_indices hm ! 1 ! 0 = 0"
    by (simp_all only: two_site_slots two_site_shift)
  with hm two_site_facts[unfolded sh] show ?thesis
    by blast
qed


section \<open>Theorems: the conjugate gradient on a multiple of the identity\<close>


lemma length_fv_scale [simp]: "length (fv_scale z v) = length v"
  by (simp add: fv_scale_def)



lemma fv_dot_zero [simp]: "fv_dot (fv_zero n) (fv_zero n) = 0"
  by (induction n) (simp_all add: fv_dot_def fv_zero_def)








end
